theory Spec2Isabelle
  imports Main
begin

section \<open>Python values, exceptions and the primitive operations on targets\<close>

text \<open>
  The exceptions the library raises or catches. \<open>NullNameError\<close> and
  \<open>NonNavigableError\<close> are the classes of \<^verbatim>\<open>_exceptions.py\<close>; the others are
  Python's built-in ones. Messages are not modelled.

  \<open>Unmodelled\<close> is not an exception of Python. It is the answer of an operation whose
  result in Python the definitions below do not compute: a method of a built-in type
  other than the few that are written out, a name or a hash that depends on the
  version of Python, an effect that would have to show through a second reference to
  an object. No \<^verbatim>\<open>except\<close> clause of the library names it, so it ends whatever runs into
  it. Where a definition answers \<open>Unmodelled\<close>, it says nothing about the code.
\<close>

datatype exc =
    NullNameError
  | NonNavigableError
  | TypeError
  | ValueError
  | KeyError
  | IndexError
  | AttributeError
  | NotImplementedError
  | RuntimeError
  | Unmodelled

text \<open>
  The universe of runtime values a bearing acts on. Containers are trees (value
  semantics): a mutation is returned as the new value of the target.
  \<^item> \<open>PDict\<close> is a \<^verbatim>\<open>dict\<close>, in insertion order;
  \<^item> \<open>PStrictDict\<close> is the \<^verbatim>\<open>StrictDict\<close> of the docstring of \<^verbatim>\<open>Item.place\<close>: a
    dict whose \<^verbatim>\<open>__setitem__\<close> raises \<^verbatim>\<open>KeyError\<close> on a key that is not present;
  \<^item> \<open>PObj c attrs\<close> is an instance of a user class \<open>c\<close> with the attributes \<open>attrs\<close>;
  \<^item> \<open>PCallable v\<close> is a callable that accepts any arguments and returns \<open>v\<close>,
    \<open>PRaiser e\<close> one that raises \<open>e\<close>;
  \<^item> \<open>PThrowsKeyError\<close> and \<open>PThrowsIndexError\<close> are the fixtures of
    \<^verbatim>\<open>conftest.py\<close> whose item access always raises;
  \<^item> \<open>PBound recv name\<close> is the bound method \<^verbatim>\<open>recv.name\<close> of a value of a built-in
    type, what \<^verbatim>\<open>getattr\<close> returns for the name of a method;
  \<^item> \<open>PView kind xs\<close> is what \<^verbatim>\<open>dict.keys()\<close>, \<^verbatim>\<open>dict.values()\<close> or
    \<^verbatim>\<open>dict.items()\<close> returns, with the entries \<open>xs\<close> it had when it was made.
  The two roots of a run and the values in them are taken to share no object, and a
  value that is stored in a second place is from then on a copy there: a later change
  of one is not seen through the other.
\<close>

datatype view_kind = KeysView | ValuesView | ItemsView

datatype pyval =
    PNone
  | PInt int
  | PStr string
  | PTuple "pyval list"
  | PList "pyval list"
  | PDict "(pyval \<times> pyval) list"
  | PStrictDict "(pyval \<times> pyval) list"
  | PObj string "(string \<times> pyval) list"
  | PCallable pyval
  | PRaiser exc
  | PThrowsKeyError
  | PThrowsIndexError
  | PBound pyval string
  | PView view_kind "pyval list"

text \<open>
  \<open>hashable v\<close>: \<open>v\<close> can be the key of a dict. For a bound method of a built-in and
  for the view of the values of a dict the model does not say (\<open>hash_unknown\<close>): the
  hash of the first depends on the version of Python (that of the receiver before
  3.8, that of its address since), the second is hashed by its address. The views of
  the keys and of the items cannot be hashed.
\<close>

fun hashable :: "pyval \<Rightarrow> bool" where
  "hashable (PTuple xs) = list_all hashable xs"
| "hashable (PList xs) = False"
| "hashable (PDict kvs) = False"
| "hashable (PStrictDict kvs) = False"
| "hashable (PBound recv n) = False"
| "hashable (PView k xs) = False"
| "hashable v = True"

fun hash_unknown :: "pyval \<Rightarrow> bool" where
  "hash_unknown (PBound recv n) = True"
| "hash_unknown (PView k xs) = (k = ValuesView)"
| "hash_unknown (PTuple xs) =
     (list_ex hash_unknown xs \<and> list_all (\<lambda>x. hashable x \<or> hash_unknown x) xs)"
| "hash_unknown v = False"

text \<open>Python's sequence indexing: a negative index counts from the end.\<close>

definition py_index :: "nat \<Rightarrow> int \<Rightarrow> nat option" where
  "py_index n i =
     (if 0 \<le> i \<and> i < int n then Some (nat i)
      else if - int n \<le> i \<and> i < 0 then Some (nat (int n + i))
      else None)"

text \<open>Storing under a key of a dict: an existing key keeps its place, a new one goes last.\<close>

fun dict_set :: "('k \<times> 'v) list \<Rightarrow> 'k \<Rightarrow> 'v \<Rightarrow> ('k \<times> 'v) list" where
  "dict_set [] k v = [(k, v)]"
| "dict_set (p # ps) k v = (if fst p = k then (k, v) # ps else p # dict_set ps k v)"

text \<open>\<^verbatim>\<open>target[name]\<close>\<close>

fun py_getitem :: "pyval \<Rightarrow> pyval \<Rightarrow> exc + pyval" where
  "py_getitem (PDict kvs) k =
     (if \<not> hashable k then (if hash_unknown k then Inl Unmodelled else Inl TypeError)
      else case map_of kvs k of None \<Rightarrow> Inl KeyError | Some v \<Rightarrow> Inr v)"
| "py_getitem (PStrictDict kvs) k =
     (if \<not> hashable k then (if hash_unknown k then Inl Unmodelled else Inl TypeError)
      else case map_of kvs k of None \<Rightarrow> Inl KeyError | Some v \<Rightarrow> Inr v)"
| "py_getitem (PList xs) k =
     (case k of
        PInt i \<Rightarrow> (case py_index (length xs) i of None \<Rightarrow> Inl IndexError | Some j \<Rightarrow> Inr (xs ! j))
      | _ \<Rightarrow> Inl TypeError)"
| "py_getitem (PTuple xs) k =
     (case k of
        PInt i \<Rightarrow> (case py_index (length xs) i of None \<Rightarrow> Inl IndexError | Some j \<Rightarrow> Inr (xs ! j))
      | _ \<Rightarrow> Inl TypeError)"
| "py_getitem (PStr s) k =
     (case k of
        PInt i \<Rightarrow> (case py_index (length s) i of None \<Rightarrow> Inl IndexError | Some j \<Rightarrow> Inr (PStr [s ! j]))
      | _ \<Rightarrow> Inl TypeError)"
| "py_getitem PThrowsKeyError k = Inl KeyError"
| "py_getitem PThrowsIndexError k = Inl IndexError"
| "py_getitem t k = Inl TypeError"

text \<open>\<^verbatim>\<open>target[name] = value\<close>, returning the target as it is afterwards.\<close>

fun py_setitem :: "pyval \<Rightarrow> pyval \<Rightarrow> pyval \<Rightarrow> exc + pyval" where
  "py_setitem (PDict kvs) k v =
     (if \<not> hashable k then (if hash_unknown k then Inl Unmodelled else Inl TypeError)
      else Inr (PDict (dict_set kvs k v)))"
| "py_setitem (PStrictDict kvs) k v =
     (if \<not> hashable k then (if hash_unknown k then Inl Unmodelled else Inl TypeError)
      else if map_of kvs k = None then Inl KeyError
      else Inr (PStrictDict (dict_set kvs k v)))"
| "py_setitem (PList xs) k v =
     (case k of
        PInt i \<Rightarrow> (case py_index (length xs) i of None \<Rightarrow> Inl IndexError | Some j \<Rightarrow> Inr (PList (xs[j := v])))
      | _ \<Rightarrow> Inl TypeError)"
| "py_setitem PThrowsKeyError k v = Inl KeyError"
| "py_setitem PThrowsIndexError k v = Inl IndexError"
| "py_setitem t k v = Inl TypeError"

text \<open>
  The public names of the built-in types (Python 3.7, the first version with the
  \<^verbatim>\<open>dataclasses\<close> the tests use), and the names that later versions have added to them.
\<close>

definition dict_names :: "string list" where
  "dict_names =
     [''clear'', ''copy'', ''fromkeys'', ''get'', ''items'', ''keys'', ''pop'', ''popitem'',
      ''setdefault'', ''update'', ''values'']"

definition list_names :: "string list" where
  "list_names =
     [''append'', ''clear'', ''copy'', ''count'', ''extend'', ''index'', ''insert'', ''pop'',
      ''remove'', ''reverse'', ''sort'']"

definition tuple_names :: "string list" where
  "tuple_names = [''count'', ''index'']"

definition str_names :: "string list" where
  "str_names =
     [''capitalize'', ''casefold'', ''center'', ''count'', ''encode'', ''endswith'',
      ''expandtabs'', ''find'', ''format'', ''format_map'', ''index'', ''isalnum'', ''isalpha'',
      ''isascii'', ''isdecimal'', ''isdigit'', ''isidentifier'', ''islower'', ''isnumeric'',
      ''isprintable'', ''isspace'', ''istitle'', ''isupper'', ''join'', ''ljust'', ''lower'',
      ''lstrip'', ''maketrans'', ''partition'', ''replace'', ''rfind'', ''rindex'', ''rjust'',
      ''rpartition'', ''rsplit'', ''rstrip'', ''split'', ''splitlines'', ''startswith'',
      ''strip'', ''swapcase'', ''title'', ''translate'', ''upper'', ''zfill'']"

definition int_names :: "string list" where
  "int_names = [''bit_length'', ''conjugate'', ''from_bytes'', ''to_bytes'']"

definition later_str_names :: "string list" where
  "later_str_names = [''removeprefix'', ''removesuffix'']"

definition later_int_names :: "string list" where
  "later_int_names = [''as_integer_ratio'', ''bit_count'', ''is_integer'']"

text \<open>
  The attribute \<open>s\<close> of a target, for a name that does not begin with two
  underscores: an attribute of an instance of a user class, a data attribute of an
  \<^verbatim>\<open>int\<close>, or the bound method of a built-in. \<^verbatim>\<open>None\<close>, functions, bound methods and the
  two fixtures have no such attribute.
\<close>

fun attr_of :: "pyval \<Rightarrow> string \<Rightarrow> exc + pyval" where
  "attr_of (PObj c attrs) s =
     (case map_of attrs s of None \<Rightarrow> Inl AttributeError | Some v \<Rightarrow> Inr v)"
| "attr_of (PDict kvs) s =
     (if s \<in> set dict_names then Inr (PBound (PDict kvs) s) else Inl AttributeError)"
| "attr_of (PStrictDict kvs) s =
     (if s \<in> set dict_names then Inr (PBound (PStrictDict kvs) s) else Inl AttributeError)"
| "attr_of (PList xs) s =
     (if s \<in> set list_names then Inr (PBound (PList xs) s) else Inl AttributeError)"
| "attr_of (PTuple xs) s =
     (if s \<in> set tuple_names then Inr (PBound (PTuple xs) s) else Inl AttributeError)"
| "attr_of (PStr t) s =
     (if s \<in> set str_names then Inr (PBound (PStr t) s)
      else if s \<in> set later_str_names then Inl Unmodelled
      else Inl AttributeError)"
| "attr_of (PInt i) s =
     (if s = ''real'' \<or> s = ''numerator'' then Inr (PInt i)
      else if s = ''imag'' then Inr (PInt 0)
      else if s = ''denominator'' then Inr (PInt 1)
      else if s \<in> set int_names then Inr (PBound (PInt i) s)
      else if s \<in> set later_int_names then Inl Unmodelled
      else Inl AttributeError)"
| "attr_of (PView k xs) s =
     (if s = ''mapping'' then Inl Unmodelled
      else if s = ''isdisjoint'' \<and> k \<noteq> ValuesView then Inr (PBound (PView k xs) s)
      else Inl AttributeError)"
| "attr_of v s = Inl AttributeError"

text \<open>
  \<^verbatim>\<open>getattr(target, name)\<close> and \<^verbatim>\<open>setattr(target, name, value)\<close>. A name that is not a
  \<^verbatim>\<open>str\<close> is a \<^verbatim>\<open>TypeError\<close>. The names that begin with two underscores
  (\<^verbatim>\<open>__class__\<close>, \<^verbatim>\<open>__len__\<close>, ...) are not modelled. \<^verbatim>\<open>setattr\<close> stores on an instance of
  a user class and raises \<^verbatim>\<open>AttributeError\<close> on a value of a built-in type; on a
  function and on an instance of \<^verbatim>\<open>StrictDict\<close> or of a fixture, which would take the
  attribute, it is not modelled.
\<close>

definition py_getattr :: "pyval \<Rightarrow> pyval \<Rightarrow> exc + pyval" where
  "py_getattr target n =
     (case n of
        PStr s \<Rightarrow> (if take 2 s = ''__'' then Inl Unmodelled else attr_of target s)
      | _ \<Rightarrow> Inl TypeError)"

fun takes_attrs :: "pyval \<Rightarrow> bool" where
  "takes_attrs (PCallable v) = True"
| "takes_attrs (PRaiser e) = True"
| "takes_attrs (PStrictDict kvs) = True"
| "takes_attrs PThrowsKeyError = True"
| "takes_attrs PThrowsIndexError = True"
| "takes_attrs v = False"

definition py_setattr :: "pyval \<Rightarrow> pyval \<Rightarrow> pyval \<Rightarrow> exc + pyval" where
  "py_setattr target n v =
     (case n of
        PStr s \<Rightarrow>
          (if take 2 s = ''__'' then Inl Unmodelled
           else case target of
                  PObj c attrs \<Rightarrow> Inr (PObj c (dict_set attrs s v))
                | _ \<Rightarrow> (if takes_attrs target then Inl Unmodelled else Inl AttributeError))
      | _ \<Rightarrow> Inl TypeError)"

fun callable :: "pyval \<Rightarrow> bool" where
  "callable (PCallable v) = True"
| "callable (PRaiser e) = True"
| "callable (PBound recv n) = True"
| "callable v = False"

text \<open>
  \<^verbatim>\<open>list.insert(i, x)\<close>: a negative position counts from the end, and a position
  beyond either end is that end.
\<close>

definition list_insert :: "int \<Rightarrow> 'a \<Rightarrow> 'a list \<Rightarrow> 'a list" where
  "list_insert i x xs =
     (let n = int (length xs);
          j = (if i < 0 then max 0 (i + n) else min i n)
      in take (nat j) xs @ x # drop (nat j) xs)"

text \<open>
  The call \<^verbatim>\<open>recv.name(*args, **kwargs)\<close> of a bound method of a built-in: what it
  returns or raises, and the receiver as it is afterwards. Written out are
  \<^verbatim>\<open>keys\<close>, \<^verbatim>\<open>values\<close>, \<^verbatim>\<open>items\<close> and \<^verbatim>\<open>copy\<close> of a dict and \<^verbatim>\<open>copy\<close>, \<^verbatim>\<open>append\<close> and
  \<^verbatim>\<open>insert\<close> of a list, none of which takes a keyword argument; \<^verbatim>\<open>dict.copy\<close> of a
  \<^verbatim>\<open>StrictDict\<close> is a plain dict. The position of an \<^verbatim>\<open>insert\<close> has to be an \<^verbatim>\<open>int\<close>
  (an instance of a user class might define \<^verbatim>\<open>__index__\<close>: not modelled).
\<close>

definition dict_call ::
  "(pyval \<times> pyval) list \<Rightarrow> string \<Rightarrow> pyval list \<Rightarrow> (string \<times> pyval) list \<Rightarrow> exc + pyval" where
  "dict_call kvs name args kwargs =
     (if name \<in> set [''keys'', ''values'', ''items'', ''copy''] then
        (if args \<noteq> [] \<or> kwargs \<noteq> [] then Inl TypeError
         else if name = ''keys'' then Inr (PView KeysView (map fst kvs))
         else if name = ''values'' then Inr (PView ValuesView (map snd kvs))
         else if name = ''items'' then Inr (PView ItemsView (map (\<lambda>p. PTuple [fst p, snd p]) kvs))
         else Inr (PDict kvs))
      else Inl Unmodelled)"

definition list_call ::
  "pyval list \<Rightarrow> string \<Rightarrow> pyval list \<Rightarrow> (string \<times> pyval) list \<Rightarrow> (exc + pyval) \<times> pyval" where
  "list_call xs name args kwargs =
     (if name \<in> set [''copy'', ''append'', ''insert''] then
        (if kwargs \<noteq> [] then (Inl TypeError, PList xs)
         else if name = ''copy'' then
           (case args of [] \<Rightarrow> (Inr (PList xs), PList xs) | _ \<Rightarrow> (Inl TypeError, PList xs))
         else if name = ''append'' then
           (case args of [x] \<Rightarrow> (Inr PNone, PList (xs @ [x])) | _ \<Rightarrow> (Inl TypeError, PList xs))
         else
           (case args of
              [i, x] \<Rightarrow>
                (case i of
                   PInt j \<Rightarrow> (Inr PNone, PList (list_insert j x xs))
                 | PObj c attrs \<Rightarrow> (Inl Unmodelled, PList xs)
                 | _ \<Rightarrow> (Inl TypeError, PList xs))
            | _ \<Rightarrow> (Inl TypeError, PList xs)))
      else (Inl Unmodelled, PList xs))"

definition builtin_call ::
  "pyval \<Rightarrow> string \<Rightarrow> pyval list \<Rightarrow> (string \<times> pyval) list \<Rightarrow> (exc + pyval) \<times> pyval" where
  "builtin_call recv name args kwargs =
     (case recv of
        PDict kvs \<Rightarrow> (dict_call kvs name args kwargs, recv)
      | PStrictDict kvs \<Rightarrow> (dict_call kvs name args kwargs, recv)
      | PList xs \<Rightarrow> list_call xs name args kwargs
      | _ \<Rightarrow> (Inl Unmodelled, recv))"

text \<open>
  \<^verbatim>\<open>method(*args, **kwargs)\<close>, as a value: the callables \<open>PCallable\<close> and \<open>PRaiser\<close>
  ignore their arguments. A call that changes its receiver has an effect that the
  value it returns does not show: not modelled here, see \<open>call_in_place\<close>.
\<close>

fun py_call :: "pyval \<Rightarrow> pyval list \<Rightarrow> (string \<times> pyval) list \<Rightarrow> exc + pyval" where
  "py_call (PCallable v) args kwargs = Inr v"
| "py_call (PRaiser e) args kwargs = Inl e"
| "py_call (PBound recv name) args kwargs =
     (case builtin_call recv name args kwargs of
        (r, recv') \<Rightarrow> (if recv' = recv then r else Inl Unmodelled))"
| "py_call f args kwargs = Inl TypeError"

text \<open>
  \<^verbatim>\<open>method(*args, **kwargs)\<close> for its effect on \<open>target\<close>, the object \<open>method\<close> was taken
  from: the target as it is afterwards. The bound method of a built-in target changes
  the target itself; one that was stored on another object changes a receiver that
  the target does not hold (not modelled).
\<close>

definition call_in_place ::
  "pyval \<Rightarrow> pyval \<Rightarrow> pyval list \<Rightarrow> (string \<times> pyval) list \<Rightarrow> exc + pyval" where
  "call_in_place target method args kwargs =
     (case method of
        PBound recv name \<Rightarrow>
          (case builtin_call recv name args kwargs of
             (Inl e, recv') \<Rightarrow> Inl e
           | (Inr r, recv') \<Rightarrow>
               (if recv = target then Inr recv'
                else if recv' = recv then Inr target
                else Inl Unmodelled))
      | _ \<Rightarrow>
          (case py_call method args kwargs of
             Inl e \<Rightarrow> Inl e
           | Inr r \<Rightarrow> Inr target))"

fun is_list :: "pyval \<Rightarrow> bool" where
  "is_list (PList xs) = True"
| "is_list v = False"

fun is_int :: "pyval \<Rightarrow> bool" where
  "is_int (PInt i) = True"
| "is_int v = False"

fun is_str :: "pyval \<Rightarrow> bool" where
  "is_str (PStr s) = True"
| "is_str v = False"

text \<open>\<^verbatim>\<open>len(target)\<close> of a list and the integer of an \<^verbatim>\<open>int\<close>, read under the guards above.\<close>

fun py_len :: "pyval \<Rightarrow> int" where
  "py_len (PList xs) = int (length xs)"
| "py_len (PTuple xs) = int (length xs)"
| "py_len (PDict kvs) = int (length kvs)"
| "py_len (PStrictDict kvs) = int (length kvs)"
| "py_len (PStr s) = int (length s)"
| "py_len (PView k xs) = int (length xs)"
| "py_len v = 0"

fun int_of :: "pyval \<Rightarrow> int" where
  "int_of (PInt i) = i"
| "int_of v = 0"

text \<open>A factory is a type called with no argument: \<^verbatim>\<open>dict\<close>, \<^verbatim>\<open>list\<close> or a user class.\<close>

datatype pyfactory = FDict | FList | FClass string

fun factory_call :: "pyfactory \<Rightarrow> pyval" where
  "factory_call FDict = PDict []"
| "factory_call FList = PList []"
| "factory_call (FClass c) = PObj c []"

fun isinstance_of :: "pyval \<Rightarrow> pyfactory \<Rightarrow> bool" where
  "isinstance_of (PDict kvs) FDict = True"
| "isinstance_of (PStrictDict kvs) FDict = True"
| "isinstance_of (PList xs) FList = True"
| "isinstance_of (PObj c attrs) (FClass d) = (c = d)"
| "isinstance_of v f = False"

section \<open>Bearings (\<^verbatim>\<open>_bearings.py\<close>)\<close>

text \<open>
  The bearing classes: \<^verbatim>\<open>BearingAbstract\<close>, its four subclasses of the module, and
  \<open>Sub n c\<close>, a class named \<open>n\<close> that derives from \<open>c\<close> and overrides nothing
  (\<^verbatim>\<open>class n(c): pass\<close>).
\<close>

datatype bclass = BearingAbstract | Item | Call | Attr | Fallback | Sub string bclass

text \<open>The classes a class derives from, itself first (its method resolution order).\<close>

fun mro :: "bclass \<Rightarrow> bclass list" where
  "mro (Sub n c) = Sub n c # mro c"
| "mro BearingAbstract = [BearingAbstract]"
| "mro c = [c, BearingAbstract]"

text \<open>The class of the module whose methods a class runs.\<close>

fun kind :: "bclass \<Rightarrow> bclass" where
  "kind (Sub n c) = kind c"
| "kind c = c"

text \<open>The four bearing classes a bearing is meant to be an instance of.\<close>

fun builtin_variant :: "bclass \<Rightarrow> bool" where
  "builtin_variant Item = True"
| "builtin_variant Call = True"
| "builtin_variant Attr = True"
| "builtin_variant Fallback = True"
| "builtin_variant c = False"

text \<open>An argument of a \<^verbatim>\<open>Call\<close>: the placeholder \<^verbatim>\<open>Call.VALUE_ARG\<close> or a value.\<close>

datatype call_arg = VALUE_ARG | Arg pyval

record bearing =
  btype :: bclass
  bname :: pyval
  factory_type :: "pyfactory option"
  func_args :: "call_arg list"
  func_kwargs :: "(string \<times> call_arg) list"
  BEARING_CLASSES :: "bclass list"

text \<open>\<^verbatim>\<open>_BEARING_CLASSES = [Item, Call, Attr]\<close>, the class attribute of \<^verbatim>\<open>Fallback\<close>.\<close>

definition BEARING_CLASSES_default :: "bclass list" where
  "BEARING_CLASSES_default = [Item, Call, Attr]"

text \<open>
  \<^verbatim>\<open>is_compatible\<close>: \<^verbatim>\<open>NAME_TYPES\<close> is \<^verbatim>\<open>[Any]\<close> for \<^verbatim>\<open>Item\<close> and \<^verbatim>\<open>Fallback\<close> and
  \<^verbatim>\<open>[str]\<close> for the others.
\<close>

definition is_compatible :: "bclass \<Rightarrow> pyval \<Rightarrow> bool" where
  "is_compatible c n = (if kind c = Item \<or> kind c = Fallback then True else is_str n)"

text \<open>\<^verbatim>\<open>cls(name, factory=factory)\<close>: \<^verbatim>\<open>__new__\<close> refuses an incompatible name.\<close>

definition init_bearing :: "bclass \<Rightarrow> pyval \<Rightarrow> pyfactory option \<Rightarrow> bearing" where
  "init_bearing c n f =
     \<lparr>btype = c, bname = n, factory_type = f, func_args = [], func_kwargs = [],
      BEARING_CLASSES = BEARING_CLASSES_default\<rparr>"

definition new_bearing :: "bclass \<Rightarrow> pyval \<Rightarrow> pyfactory option \<Rightarrow> exc + bearing" where
  "new_bearing c n f = (if \<not> is_compatible c n then Inl TypeError else Inr (init_bearing c n f))"

definition isinstance :: "bearing \<Rightarrow> bclass \<Rightarrow> bool" where
  "isinstance b c = (c \<in> set (mro (btype b)))"

text \<open>The right operand of \<^verbatim>\<open>==\<close>: a bearing or any other value.\<close>

datatype operand = Bearing bearing | Other pyval

text \<open>\<^verbatim>\<open>BearingAbstract.__eq__\<close>\<close>

fun bearing_eq :: "bearing \<Rightarrow> operand \<Rightarrow> exc + bool" where
  "bearing_eq self (Other v) = Inl TypeError"
| "bearing_eq self (Bearing other) =
     (if \<not> (bname other = bname self) then Inr False
      else if isinstance other Fallback \<and> btype self \<in> set (BEARING_CLASSES other) then Inr True
      else if isinstance self Fallback \<and> btype other \<in> set (BEARING_CLASSES self) then Inr True
      else if isinstance other (btype self) then Inr True
      else if isinstance self (btype other) then Inr True
      else Inr False)"

text \<open>\<^verbatim>\<open>Item.fetch\<close>\<close>

definition Item_fetch :: "bearing \<Rightarrow> pyval \<Rightarrow> exc + pyval" where
  "Item_fetch self target =
     (case py_getitem target (bname self) of
        Inl e \<Rightarrow> (if e = KeyError \<or> e = IndexError then Inl NullNameError else Inl e)
      | Inr v \<Rightarrow> Inr v)"

text \<open>The loop \<^verbatim>\<open>for i in range(k): target.append(None)\<close>\<close>

fun append_none :: "nat \<Rightarrow> pyval list \<Rightarrow> pyval list" where
  "append_none 0 xs = xs"
| "append_none (Suc k) xs = append_none k (xs @ [PNone])"

fun list_append_none :: "nat \<Rightarrow> pyval \<Rightarrow> pyval" where
  "list_append_none k (PList xs) = PList (append_none k xs)"
| "list_append_none k v = v"

text \<open>
  \<^verbatim>\<open>Item.place\<close>, returning the target as it is afterwards. \<^verbatim>\<open>range(n)\<close> is empty for
  \<open>n \<le> 0\<close>; the assignment after the loop is outside any \<^verbatim>\<open>try\<close>.
\<close>

definition Item_place :: "bearing \<Rightarrow> pyval \<Rightarrow> pyval \<Rightarrow> exc + pyval" where
  "Item_place self target v =
     (case py_setitem target (bname self) v of
        Inl e \<Rightarrow>
          (if e = KeyError then Inl NullNameError
           else if e = IndexError then
             (if is_list target \<and> is_int (bname self) then
                py_setitem
                  (list_append_none (nat (int_of (bname self) + 1 - py_len target)) target)
                  (bname self) v
              else Inl NullNameError)
           else Inl e)
      | Inr target' \<Rightarrow> Inr target')"

text \<open>\<^verbatim>\<open>Attr.fetch\<close> and \<^verbatim>\<open>Attr.place\<close>\<close>

definition Attr_fetch :: "bearing \<Rightarrow> pyval \<Rightarrow> exc + pyval" where
  "Attr_fetch self target =
     (case py_getattr target (bname self) of
        Inl e \<Rightarrow> (if e = AttributeError then Inl NullNameError else Inl e)
      | Inr v \<Rightarrow> Inr v)"

definition Attr_place :: "bearing \<Rightarrow> pyval \<Rightarrow> pyval \<Rightarrow> exc + pyval" where
  "Attr_place self target v =
     (case py_getattr target (bname self) of
        Inl e \<Rightarrow> (if e = AttributeError then Inl NullNameError else Inl e)
      | Inr attr \<Rightarrow>
          (if callable attr then Inl TypeError else py_setattr target (bname self) v))"

text \<open>\<^verbatim>\<open>Call.fetch\<close>, \<^verbatim>\<open>Call._replace_args\<close> and \<^verbatim>\<open>Call.place\<close>\<close>

fun arg_value :: "call_arg \<Rightarrow> pyval" where
  "arg_value VALUE_ARG = PObj ''object'' []"
| "arg_value (Arg v) = v"

definition Call_fetch :: "bearing \<Rightarrow> pyval \<Rightarrow> exc + pyval" where
  "Call_fetch self target =
     (case py_getattr target (bname self) of
        Inl e \<Rightarrow> (if e = AttributeError then Inl NullNameError else Inl e)
      | Inr method \<Rightarrow>
          py_call method (map arg_value (func_args self))
            (map (\<lambda>(k, a). (k, arg_value a)) (func_kwargs self)))"

fun replace_arg :: "pyval \<Rightarrow> call_arg \<Rightarrow> pyval" where
  "replace_arg v VALUE_ARG = v"
| "replace_arg v (Arg a) = a"

definition replace_args :: "bearing \<Rightarrow> pyval \<Rightarrow> pyval list \<times> (string \<times> pyval) list" where
  "replace_args self v =
     (let value_replaced =
            (VALUE_ARG \<in> snd ` set (func_kwargs self) \<or> VALUE_ARG \<in> set (func_args self));
          kwargs = map (\<lambda>(k, a). (k, replace_arg v a)) (func_kwargs self);
          args = map (replace_arg v) (func_args self)
      in (if \<not> value_replaced then v # args else args, kwargs))"

definition Call_place :: "bearing \<Rightarrow> pyval \<Rightarrow> pyval \<Rightarrow> exc + pyval" where
  "Call_place self target v =
     (case py_getattr target (bname self) of
        Inl e \<Rightarrow> (if e = AttributeError then Inl NullNameError else Inl e)
      | Inr method \<Rightarrow>
          call_in_place target method (fst (replace_args self v)) (snd (replace_args self v)))"

text \<open>
  The methods of the classes other than \<^verbatim>\<open>Fallback\<close>; those of \<^verbatim>\<open>BearingAbstract\<close>
  raise \<^verbatim>\<open>NotImplementedError\<close>.
\<close>

definition concrete_fetch :: "bclass \<Rightarrow> bearing \<Rightarrow> pyval \<Rightarrow> exc + pyval" where
  "concrete_fetch c self target =
     (case kind c of
        Item \<Rightarrow> Item_fetch self target
      | Attr \<Rightarrow> Attr_fetch self target
      | Call \<Rightarrow> Call_fetch self target
      | _ \<Rightarrow> Inl NotImplementedError)"

definition concrete_place :: "bclass \<Rightarrow> bearing \<Rightarrow> pyval \<Rightarrow> pyval \<Rightarrow> exc + pyval" where
  "concrete_place c self target v =
     (case kind c of
        Item \<Rightarrow> Item_place self target v
      | Attr \<Rightarrow> Attr_place self target v
      | Call \<Rightarrow> Call_place self target v
      | _ \<Rightarrow> Inl NotImplementedError)"

text \<open>The exceptions the loops of \<^verbatim>\<open>Fallback\<close> catch: \<^verbatim>\<open>(NullNameError, TypeError, ValueError)\<close>.\<close>

definition caught :: "exc \<Rightarrow> bool" where
  "caught e = (e = NullNameError \<or> e = TypeError \<or> e = ValueError)"

text \<open>
  The loop of \<^verbatim>\<open>Fallback.fetch\<close> over \<^verbatim>\<open>self.BEARING_CLASSES\<close>; \<open>fetch_of c\<close> is the
  \<^verbatim>\<open>fetch\<close> of class \<open>c\<close>.
\<close>

fun Fallback_fetch_loop ::
  "(bclass \<Rightarrow> bearing \<Rightarrow> pyval \<Rightarrow> exc + pyval) \<Rightarrow> bclass list \<Rightarrow> bearing \<Rightarrow> pyval \<Rightarrow> exc + pyval" where
  "Fallback_fetch_loop fetch_of [] self target = Inl NullNameError"
| "Fallback_fetch_loop fetch_of (bearing_type # rest) self target =
     (case new_bearing bearing_type (bname self) None of
        Inl e \<Rightarrow>
          (if e = TypeError then Fallback_fetch_loop fetch_of rest self target else Inl e)
      | Inr cast_bearing \<Rightarrow>
          (case fetch_of bearing_type cast_bearing target of
             Inr v \<Rightarrow> Inr v
           | Inl e \<Rightarrow>
               (if caught e then Fallback_fetch_loop fetch_of rest self target else Inl e)))"

fun Fallback_place_loop ::
  "(bclass \<Rightarrow> bearing \<Rightarrow> pyval \<Rightarrow> pyval \<Rightarrow> exc + pyval) \<Rightarrow> bclass list \<Rightarrow> bearing \<Rightarrow> pyval \<Rightarrow> pyval
     \<Rightarrow> exc + pyval" where
  "Fallback_place_loop place_of [] self target v = Inl NullNameError"
| "Fallback_place_loop place_of (bearing_type # rest) self target v =
     (case new_bearing bearing_type (bname self) None of
        Inl e \<Rightarrow>
          (if e = TypeError then Fallback_place_loop place_of rest self target v else Inl e)
      | Inr cast_bearing \<Rightarrow>
          (case place_of bearing_type cast_bearing target v of
             Inr target' \<Rightarrow> Inr target'
           | Inl e \<Rightarrow>
               (if caught e then Fallback_place_loop place_of rest self target v else Inl e)))"

text \<open>
  The \<^verbatim>\<open>fetch\<close> and \<^verbatim>\<open>place\<close> of a class: a class of kind \<^verbatim>\<open>Fallback\<close> met inside a
  loop is a fresh \<^verbatim>\<open>Fallback\<close>, which loops over the classes of the module.
\<close>

definition class_fetch :: "bclass \<Rightarrow> bearing \<Rightarrow> pyval \<Rightarrow> exc + pyval" where
  "class_fetch c self target =
     (if kind c = Fallback then Fallback_fetch_loop concrete_fetch (BEARING_CLASSES self) self target
      else concrete_fetch c self target)"

definition class_place :: "bclass \<Rightarrow> bearing \<Rightarrow> pyval \<Rightarrow> pyval \<Rightarrow> exc + pyval" where
  "class_place c self target v =
     (if kind c = Fallback then Fallback_place_loop concrete_place (BEARING_CLASSES self) self target v
      else concrete_place c self target v)"

text \<open>\<^verbatim>\<open>Fallback.fetch\<close> and \<^verbatim>\<open>Fallback.place\<close>\<close>

definition Fallback_fetch :: "bearing \<Rightarrow> pyval \<Rightarrow> exc + pyval" where
  "Fallback_fetch self target = Fallback_fetch_loop class_fetch (BEARING_CLASSES self) self target"

definition Fallback_place :: "bearing \<Rightarrow> pyval \<Rightarrow> pyval \<Rightarrow> exc + pyval" where
  "Fallback_place self target v =
     Fallback_place_loop class_place (BEARING_CLASSES self) self target v"

text \<open>\<^verbatim>\<open>bearing.fetch(target)\<close> and \<^verbatim>\<open>bearing.place(target, value)\<close>, by the class of the bearing.\<close>

definition fetch :: "bearing \<Rightarrow> pyval \<Rightarrow> exc + pyval" where
  "fetch self target =
     (if kind (btype self) = Fallback then Fallback_fetch self target
      else concrete_fetch (btype self) self target)"

definition place :: "bearing \<Rightarrow> pyval \<Rightarrow> pyval \<Rightarrow> exc + pyval" where
  "place self target v =
     (if kind (btype self) = Fallback then Fallback_place self target v
      else concrete_place (btype self) self target v)"

text \<open>
  One turn of the loop of \<^verbatim>\<open>Fallback.fetch\<close>: \<^verbatim>\<open>self\<close> cast to the class, then the
  \<^verbatim>\<open>fetch\<close> of the cast bearing.
\<close>

definition attempt_fetch :: "bclass \<Rightarrow> bearing \<Rightarrow> pyval \<Rightarrow> exc + pyval" where
  "attempt_fetch c self target =
     (case new_bearing c (bname self) None of
        Inl e \<Rightarrow> Inl e
      | Inr cast_bearing \<Rightarrow> class_fetch c cast_bearing target)"

section \<open>String shorthand and the \<^verbatim>\<open>bearing\<close> factory (\<^verbatim>\<open>_bearings.py\<close>)\<close>

text \<open>\<^verbatim>\<open>text.split(sep)\<close> for a separator of one character.\<close>

fun str_split :: "char \<Rightarrow> string \<Rightarrow> string list" where
  "str_split sep [] = [[]]"
| "str_split sep (x # xs) =
     (if x = sep then [] # str_split sep xs
      else (case str_split sep xs of w # ws \<Rightarrow> (x # w) # ws | [] \<Rightarrow> [[x]]))"

text \<open>
  The regular expressions of the classes, as \<^verbatim>\<open>re.match\<close> applies them (anchored at the
  start only; \<^verbatim>\<open>.\<close> is any character but a newline). Each function returns what
  \<^verbatim>\<open>name_from_str\<close> returns on a match: group 1, or the whole text for the pattern
  \<^verbatim>\<open>.+\<close> without a group.
  \<^item> \<^verbatim>\<open>Item\<close>: \<^verbatim>\<open>\[(.+)\]\<close>, greedy: up to the last \<^verbatim>\<open>]\<close> of the first line;
  \<^item> \<^verbatim>\<open>Attr\<close>: \<^verbatim>\<open>@(.+)\<close>;
  \<^item> \<^verbatim>\<open>Call\<close>: \<^verbatim>\<open>(.+?)\(\)\<close>, lazy: up to the first \<^verbatim>\<open>()\<close> after one character;
  \<^item> \<^verbatim>\<open>BearingAbstract\<close> and \<^verbatim>\<open>Fallback\<close>: \<^verbatim>\<open>.+\<close>.
\<close>

definition dot_run :: "string \<Rightarrow> string" where
  "dot_run text = takeWhile (\<lambda>c. c \<noteq> CHR 0x0A) text"

definition match_Item :: "string \<Rightarrow> string option" where
  "match_Item text =
     (case text of
        [] \<Rightarrow> None
      | c # rest \<Rightarrow>
          (if c \<noteq> CHR ''['' then None
           else (case rev (dropWhile (\<lambda>c. c \<noteq> CHR '']'') (rev (dot_run rest))) of
                   [] \<Rightarrow> None
                 | b # body \<Rightarrow> (if body = [] then None else Some (butlast (b # body))))))"

definition match_Attr :: "string \<Rightarrow> string option" where
  "match_Attr text =
     (case text of
        [] \<Rightarrow> None
      | c # rest \<Rightarrow>
          (if c \<noteq> CHR ''@'' \<or> dot_run rest = [] then None else Some (dot_run rest)))"

fun match_Call_scan :: "string \<Rightarrow> string \<Rightarrow> string option" where
  "match_Call_scan acc [] = None"
| "match_Call_scan acc [x] = None"
| "match_Call_scan acc (x # y # rest) =
     (if x = CHR ''('' \<and> y = CHR '')'' then Some acc
      else if x = CHR 0x0A then None
      else match_Call_scan (acc @ [x]) (y # rest))"

definition match_Call :: "string \<Rightarrow> string option" where
  "match_Call text =
     (case text of
        [] \<Rightarrow> None
      | c # rest \<Rightarrow> (if c = CHR 0x0A then None else match_Call_scan [c] rest))"

definition match_any :: "string \<Rightarrow> string option" where
  "match_any text = (if dot_run text = [] then None else Some text)"

text \<open>\<^verbatim>\<open>name_from_str\<close>: \<^verbatim>\<open>re.match\<close> raises \<^verbatim>\<open>TypeError\<close> on a text that is not a string.\<close>

definition name_from_str :: "bclass \<Rightarrow> pyval \<Rightarrow> exc + pyval" where
  "name_from_str c text =
     (case text of
        PStr s \<Rightarrow>
          (case (case kind c of
                   Item \<Rightarrow> match_Item s
                 | Attr \<Rightarrow> match_Attr s
                 | Call \<Rightarrow> match_Call s
                 | _ \<Rightarrow> match_any s) of
             None \<Rightarrow> Inl ValueError
           | Some g \<Rightarrow> Inr (PStr g))
      | _ \<Rightarrow> Inl TypeError)"

text \<open>
  \<^verbatim>\<open>attempt_name_to_bearing\<close>: a \<^verbatim>\<open>TypeError\<close> of the \<^verbatim>\<open>try\<close> block leads to a second
  construction with the name as it then is, whose \<^verbatim>\<open>TypeError\<close> becomes a \<^verbatim>\<open>ValueError\<close>.
\<close>

definition retry_bearing :: "bclass \<Rightarrow> pyval \<Rightarrow> exc + bearing" where
  "retry_bearing bearing_type n =
     (case new_bearing bearing_type n None of
        Inl e \<Rightarrow> (if e = TypeError then Inl ValueError else Inl e)
      | Inr new \<Rightarrow> Inr new)"

definition attempt_name_to_bearing :: "pyval \<Rightarrow> bclass \<Rightarrow> exc + bearing" where
  "attempt_name_to_bearing n bearing_type =
     (case name_from_str bearing_type n of
        Inl e \<Rightarrow> (if e = TypeError then retry_bearing bearing_type n else Inl e)
      | Inr n' \<Rightarrow>
          (case new_bearing bearing_type n' None of
             Inl e \<Rightarrow> (if e = TypeError then retry_bearing bearing_type n' else Inl e)
           | Inr new \<Rightarrow> Inr new))"

definition order_bearing_classes :: "bclass list option \<Rightarrow> bclass list option \<Rightarrow> bclass list" where
  "order_bearing_classes bearing_classes bearing_classes_extra =
     (case bearing_classes_extra of None \<Rightarrow> [] | Some extra \<Rightarrow> extra)
     @ (case bearing_classes of None \<Rightarrow> BEARING_CLASSES_default @ [Fallback] | Some cs \<Rightarrow> cs)"

fun bearing_loop :: "pyval \<Rightarrow> bclass list \<Rightarrow> exc + bearing option" where
  "bearing_loop n [] = Inr None"
| "bearing_loop n (this_type # rest) =
     (case attempt_name_to_bearing n this_type of
        Inl e \<Rightarrow> (if e = ValueError then bearing_loop n rest else Inl e)
      | Inr new \<Rightarrow> Inr (Some new))"

text \<open>The factory function \<^verbatim>\<open>bearing\<close>.\<close>

definition bearing :: "pyval \<Rightarrow> bclass list option \<Rightarrow> bclass list option \<Rightarrow> exc + bearing" where
  "bearing n bearing_classes bearing_classes_extra =
     (let classes_loaded = order_bearing_classes bearing_classes bearing_classes_extra in
      case bearing_loop n classes_loaded of
        Inl e \<Rightarrow> Inl e
      | Inr None \<Rightarrow> Inl TypeError
      | Inr (Some new) \<Rightarrow>
          (if isinstance new Fallback
           then Inr (new\<lparr>BEARING_CLASSES := filter (\<lambda>x. Fallback \<notin> set (mro x)) classes_loaded\<rparr>)
           else Inr new))"

section \<open>Courses (\<^verbatim>\<open>_course.py\<close>)\<close>

text \<open>A course is the tuple of its bearings.\<close>

type_synonym course = "bearing list"

text \<open>An argument of \<^verbatim>\<open>Course(...)\<close>: a course, a bearing, or any other value (a string is split).\<close>

datatype course_input = InCourse course | InBearing bearing | InValue pyval

text \<open>\<^verbatim>\<open>Course.BEARINGS\<close> and \<^verbatim>\<open>Course.BEARINGS_EXTENSION\<close>\<close>

definition BEARINGS :: "bclass list" where
  "BEARINGS = BEARING_CLASSES_default @ [Fallback]"

definition BEARINGS_EXTENSION :: "bclass list" where
  "BEARINGS_EXTENSION = []"

text \<open>A generator that raises yields nothing: the first exception is the result.\<close>

fun collect :: "(exc + 'a) list \<Rightarrow> exc + 'a list" where
  "collect [] = Inr []"
| "collect (r # rs) =
     (case r of
        Inl e \<Rightarrow> Inl e
      | Inr x \<Rightarrow> (case collect rs of Inl e \<Rightarrow> Inl e | Inr xs \<Rightarrow> Inr (x # xs)))"

definition cast_arg :: "course_input \<Rightarrow> exc + course" where
  "cast_arg new =
     (case new of
        InCourse c \<Rightarrow> Inr c
      | InBearing b \<Rightarrow> Inr [b]
      | InValue v \<Rightarrow>
          collect (map (\<lambda>x. bearing x (Some (BEARINGS_EXTENSION @ BEARINGS)) None)
                     (case v of PStr s \<Rightarrow> map PStr (str_split CHR ''/'' s) | _ \<Rightarrow> [v])))"

definition Course_init :: "course_input list \<Rightarrow> exc + course" where
  "Course_init args =
     (case collect (map cast_arg args) of Inl e \<Rightarrow> Inl e | Inr cs \<Rightarrow> Inr (concat cs))"

text \<open>\<^verbatim>\<open>PORT = Course()\<close> and \<^verbatim>\<open>course / other\<close>\<close>

definition PORT :: course where
  "PORT = []"

definition truediv :: "course \<Rightarrow> course_input \<Rightarrow> exc + course" where
  "truediv self other = Course_init [InCourse self, other]"

text \<open>
  \<^verbatim>\<open>Course.__eq__\<close> between courses compares the tuples of bearings, and
  \<^verbatim>\<open>Course.__contains__\<close> compares every window of the length of the item.
\<close>

definition Course_eq :: "course \<Rightarrow> course \<Rightarrow> bool" where
  "Course_eq self other =
     (length other = length self \<and>
      list_all (\<lambda>(x, y). bearing_eq x (Bearing y) = Inr True) (zip other self))"

definition Course_contains :: "course \<Rightarrow> course \<Rightarrow> bool" where
  "Course_contains self item =
     list_ex (\<lambda>x. Course_eq (take (length item) (drop x self)) item)
       [0 ..< nat (int (length self) - int (length item) + 1)]"

text \<open>
  \<^verbatim>\<open>Course.fetch(target, default=...)\<close>; the default \<open>None\<close> is \<^verbatim>\<open>NO_DEFAULT\<close>.
\<close>

fun Course_fetch :: "course \<Rightarrow> pyval \<Rightarrow> pyval option \<Rightarrow> exc + pyval" where
  "Course_fetch [] target dflt = Inr target"
| "Course_fetch (this_bearing # rest) target dflt =
     (case fetch this_bearing target of
        Inl error \<Rightarrow>
          (if error = NullNameError
           then (case dflt of Some d \<Rightarrow> Inr d | None \<Rightarrow> Inl error)
           else Inl error)
      | Inr target' \<Rightarrow> Course_fetch rest target' dflt)"

text \<open>
  Where a fetched or placed value lives in its target, so that a change made to it
  further down the course shows in the target (the value is the same object in
  Python): under an item, under an attribute, or as the result of a callable attribute
  \<open>PCallable\<close>. What the bound method of a built-in returned (\<open>bound_attr\<close>) is a new
  object, which the target does not hold.
  \<open>first_class ok cs\<close> is the first class of a \<^verbatim>\<open>Fallback\<close>'s list whose attempt succeeded.
\<close>

fun py_store_item :: "pyval \<Rightarrow> pyval \<Rightarrow> pyval \<Rightarrow> pyval" where
  "py_store_item (PDict kvs) k v = PDict (dict_set kvs k v)"
| "py_store_item (PStrictDict kvs) k v = PStrictDict (dict_set kvs k v)"
| "py_store_item (PList xs) k v =
     (case py_index (length xs) (int_of k) of None \<Rightarrow> PList xs | Some j \<Rightarrow> PList (xs[j := v]))"
| "py_store_item (PTuple xs) k v =
     (case py_index (length xs) (int_of k) of None \<Rightarrow> PTuple xs | Some j \<Rightarrow> PTuple (xs[j := v]))"
| "py_store_item t k v = t"

fun py_store_attr :: "pyval \<Rightarrow> pyval \<Rightarrow> pyval \<Rightarrow> pyval" where
  "py_store_attr (PObj c attrs) (PStr s) v = PObj c (dict_set attrs s v)"
| "py_store_attr t n v = t"

definition store_through :: "bclass \<Rightarrow> pyval \<Rightarrow> pyval \<Rightarrow> pyval \<Rightarrow> pyval" where
  "store_through k n target v =
     (case k of
        Item \<Rightarrow> py_store_item target n v
      | Attr \<Rightarrow> py_store_attr target n v
      | Call \<Rightarrow>
          (case py_getattr target n of
             Inr (PCallable old) \<Rightarrow> py_store_attr target n (PCallable v)
           | _ \<Rightarrow> target)
      | _ \<Rightarrow> target)"

definition bound_attr :: "pyval \<Rightarrow> pyval \<Rightarrow> bool" where
  "bound_attr target n =
     (case py_getattr target n of Inr (PBound recv name) \<Rightarrow> True | _ \<Rightarrow> False)"

fun first_class :: "(bclass \<Rightarrow> bool) \<Rightarrow> bclass list \<Rightarrow> bclass option" where
  "first_class ok [] = None"
| "first_class ok (c # cs) = (if ok c then Some c else first_class ok cs)"

definition through_of :: "(bclass \<Rightarrow> bearing \<Rightarrow> bool) \<Rightarrow> bearing \<Rightarrow> bclass" where
  "through_of ok self =
     (if kind (btype self) = Fallback then
        (case first_class (\<lambda>c. ok c self) (BEARING_CLASSES self) of
           None \<Rightarrow> BearingAbstract
         | Some c \<Rightarrow>
             (if kind c = Fallback then
                (case first_class (\<lambda>d. ok d self) BEARING_CLASSES_default of
                   None \<Rightarrow> BearingAbstract
                 | Some d \<Rightarrow> kind d)
              else kind c))
      else kind (btype self))"

definition fetched_through :: "bearing \<Rightarrow> pyval \<Rightarrow> bclass" where
  "fetched_through self target =
     through_of (\<lambda>c b. case new_bearing c (bname b) None of
                         Inl e \<Rightarrow> False
                       | Inr cb \<Rightarrow> (case class_fetch c cb target of Inl e \<Rightarrow> False | Inr v \<Rightarrow> True))
       self"

definition placed_through :: "bearing \<Rightarrow> pyval \<Rightarrow> pyval \<Rightarrow> bclass" where
  "placed_through self target v =
     through_of (\<lambda>c b. case new_bearing c (bname b) None of
                         Inl e \<Rightarrow> False
                       | Inr cb \<Rightarrow> (case class_place c cb target v of Inl e \<Rightarrow> False | Inr t \<Rightarrow> True))
       self"

text \<open>
  \<^verbatim>\<open>Course.place(target, value)\<close>: the loop over \<^verbatim>\<open>self.parent\<close>, then the \<^verbatim>\<open>place\<close> of
  the end point. The result is the exception raised, if any, and the target as it is
  afterwards: a factory node placed before a later failure stays in the target. A
  value placed through a \<^verbatim>\<open>Call\<close> is not stored by a callable \<open>PCallable\<close>, so a factory
  node placed that way stays detached. Two cases are not modelled: a change further
  down the course to what the bound method of a built-in returned (a copy or a view,
  whose entries are those of the target), and to a factory node that such a method has
  stored in the target (\<^verbatim>\<open>append\<close>, \<^verbatim>\<open>insert\<close>).
\<close>

fun place_walk :: "course \<Rightarrow> bearing \<Rightarrow> pyval \<Rightarrow> pyval \<Rightarrow> exc option \<times> pyval" where
  "place_walk [] end_point target v =
     (case place end_point target v of
        Inl e \<Rightarrow> (Some e, target)
      | Inr target' \<Rightarrow> (None, target'))"
| "place_walk (this_bearing # rest) end_point target v =
     (case (case fetch this_bearing target of
              Inl error \<Rightarrow>
                (if error = NullNameError \<and> factory_type this_bearing \<noteq> None then Inr None
                 else Inl error)
            | Inr new_target \<Rightarrow> Inr (Some new_target)) of
        Inl error \<Rightarrow> (Some error, target)
      | Inr fetched \<Rightarrow>
          (let new_target = (case fetched of None \<Rightarrow> PNone | Some t \<Rightarrow> t);
               make = (case factory_type this_bearing of
                         None \<Rightarrow> None
                       | Some factory \<Rightarrow>
                           (if \<not> isinstance_of new_target factory then Some factory else None))
           in case make of
                Some factory \<Rightarrow>
                  (let new_node = factory_call factory in
                   case place this_bearing target new_node of
                     Inl e \<Rightarrow> (Some e, target)
                   | Inr target' \<Rightarrow>
                       (let r = place_walk rest end_point new_node v;
                            through = placed_through this_bearing target new_node
                        in if through = Call then
                             (if target' \<noteq> target \<and> snd r \<noteq> new_node
                              then (Some Unmodelled, target')
                              else (fst r, target'))
                           else (fst r,
                                 store_through through (bname this_bearing) target' (snd r))))
              | None \<Rightarrow>
                  (let r = place_walk rest end_point new_target v;
                       through = fetched_through this_bearing target
                   in if through = Call \<and> bound_attr target (bname this_bearing)
                         \<and> snd r \<noteq> new_target
                      then (Some Unmodelled, target)
                      else (fst r,
                            store_through through (bname this_bearing) target (snd r)))))"

definition Course_place :: "course \<Rightarrow> pyval \<Rightarrow> pyval \<Rightarrow> exc option \<times> pyval" where
  "Course_place self target v =
     (case self of
        [] \<Rightarrow> (Some IndexError, target)
      | b # bs \<Rightarrow> place_walk (butlast self) (last self) target v)"


section \<open>The compass and the surveyor (\<^verbatim>\<open>_compass.py\<close>, \<^verbatim>\<open>_surveyor.py\<close>)\<close>

text \<open>The types a compass or a surveyor tests a value against with \<^verbatim>\<open>isinstance\<close>.\<close>

datatype ptype =
  TNone | TInt | TStr | TTuple | TList | TDict | TObj string | TFunction | TBuiltinMethod
  | TDictView view_kind

fun isinstance_type :: "pyval \<Rightarrow> ptype \<Rightarrow> bool" where
  "isinstance_type PNone t = (t = TNone)"
| "isinstance_type (PInt i) t = (t = TInt)"
| "isinstance_type (PStr s) t = (t = TStr)"
| "isinstance_type (PTuple xs) t = (t = TTuple)"
| "isinstance_type (PList xs) t = (t = TList)"
| "isinstance_type (PDict kvs) t = (t = TDict)"
| "isinstance_type (PStrictDict kvs) t = (t = TDict \<or> t = TObj ''StrictDict'')"
| "isinstance_type (PObj c attrs) t = (t = TObj c)"
| "isinstance_type (PCallable v) t = (t = TFunction)"
| "isinstance_type (PRaiser e) t = (t = TFunction)"
| "isinstance_type PThrowsKeyError t = (t = TObj ''ThrowsKeyError'')"
| "isinstance_type PThrowsIndexError t = (t = TObj ''ThrowsIndexError'')"
| "isinstance_type (PBound recv n) t = (t = TBuiltinMethod)"
| "isinstance_type (PView k xs) t = (t = TDictView k)"

text \<open>
  A compass with \<^verbatim>\<open>attrs\<close> and \<^verbatim>\<open>items\<close> switched on or off and \<^verbatim>\<open>calls\<close> left at its
  default \<^verbatim>\<open>False\<close> (the allow-lists are not modelled).
\<close>

record compass =
  target_types :: "ptype list option"
  attrs :: bool
  items :: bool

definition Compass_default :: compass where
  "Compass_default = \<lparr>target_types = None, attrs = True, items = True\<rparr>"

definition is_navigable :: "compass \<Rightarrow> pyval \<Rightarrow> bool" where
  "is_navigable c target =
     (case target_types c of None \<Rightarrow> True | Some ts \<Rightarrow> list_ex (isinstance_type target) ts)"

text \<open>
  \<^verbatim>\<open>attr_iter\<close>: the public names of \<^verbatim>\<open>target.__dict__\<close>; \<^verbatim>\<open>item_iter\<close>: the items of a
  mapping, the positions of a sequence.
\<close>

definition attr_iter :: "compass \<Rightarrow> pyval \<Rightarrow> (bearing \<times> pyval) list" where
  "attr_iter c target =
     (if attrs c then
        (case target of
           PObj cl as \<Rightarrow>
             map (\<lambda>p. (init_bearing Attr (PStr (fst p)) None, snd p))
               (filter (\<lambda>p. take 1 (fst p) \<noteq> ''_'') as)
         | _ \<Rightarrow> [])
      else [])"

definition enumerate_items :: "pyval list \<Rightarrow> (bearing \<times> pyval) list" where
  "enumerate_items xs =
     map (\<lambda>p. (init_bearing Item (PInt (int (fst p))) None, snd p)) (zip [0 ..< length xs] xs)"

definition item_iter :: "compass \<Rightarrow> pyval \<Rightarrow> (bearing \<times> pyval) list" where
  "item_iter c target =
     (if \<not> items c then []
      else (case target of
              PDict kvs \<Rightarrow> map (\<lambda>p. (init_bearing Item (fst p) None, snd p)) kvs
            | PStrictDict kvs \<Rightarrow> map (\<lambda>p. (init_bearing Item (fst p) None, snd p)) kvs
            | PList xs \<Rightarrow> enumerate_items xs
            | PTuple xs \<Rightarrow> enumerate_items xs
            | PStr s \<Rightarrow> enumerate_items (map (\<lambda>ch. PStr [ch]) s)
            | _ \<Rightarrow> []))"

text \<open>
  \<^verbatim>\<open>bearings_iter\<close> runs the methods whose names end in \<^verbatim>\<open>_iter\<close> in the order of
  \<^verbatim>\<open>dir\<close>: \<^verbatim>\<open>attr_iter\<close>, \<^verbatim>\<open>call_iter\<close> (which yields nothing), \<^verbatim>\<open>item_iter\<close>.
\<close>

definition bearing_pairs :: "compass \<Rightarrow> pyval \<Rightarrow> (bearing \<times> pyval) list" where
  "bearing_pairs c target = attr_iter c target @ item_iter c target"

definition bearings_iter :: "compass \<Rightarrow> pyval \<Rightarrow> exc + (bearing \<times> pyval) list" where
  "bearings_iter c target =
     (if \<not> is_navigable c target then Inl NonNavigableError else Inr (bearing_pairs c target))"

text \<open>
  A surveyor with the default end points \<^verbatim>\<open>(str, int, float, type)\<close> and the course
  type \<^verbatim>\<open>Course\<close>.
\<close>

record surveyor =
  compasses :: "compass list"

definition Surveyor_default :: surveyor where
  "Surveyor_default = \<lparr>compasses = [Compass_default]\<rparr>"

definition is_end_point :: "pyval \<Rightarrow> bool" where
  "is_end_point v = (is_str v \<or> is_int v)"

definition choose_compass :: "surveyor \<Rightarrow> pyval \<Rightarrow> compass option" where
  "choose_compass s target = find (\<lambda>c. is_navigable c target) (compasses s)"

lemma size_dict_value: "(k, v) \<in> set kvs \<Longrightarrow> size v < Suc (size_list (size_prod size size) kvs)"
  by (induction kvs) auto

lemma size_attr_value:
  "(n, v) \<in> set as \<Longrightarrow> size v < Suc (size_list (size_prod (\<lambda>x. 0) size) as)"
  by (induction as) auto

lemma size_list_value: "v \<in> set xs \<Longrightarrow> size v < Suc (size_list size xs)"
  by (induction xs) auto

lemma attr_iter_cases:
  "attr_iter c target = [] \<or>
   (\<exists>cl as. target = PObj cl as \<and>
      attr_iter c target
        = map (\<lambda>p. (init_bearing Attr (PStr (fst p)) None, snd p))
            (filter (\<lambda>p. take 1 (fst p) \<noteq> ''_'') as))"
  by (cases target) (simp_all add: attr_iter_def)

lemma attr_iter_smaller:
  assumes "(b, v) \<in> set (attr_iter c target)"
  shows "size v < size target"
proof -
  from assms have "attr_iter c target \<noteq> []" by auto
  with attr_iter_cases [of c target] obtain cl as where t: "target = PObj cl as"
    and a: "attr_iter c target
              = map (\<lambda>p. (init_bearing Attr (PStr (fst p)) None, snd p))
                  (filter (\<lambda>p. take 1 (fst p) \<noteq> ''_'') as)"
    by blast
  from assms a obtain n where "(n, v) \<in> set as" by auto
  then show ?thesis using t size_attr_value [of n v as] by simp
qed

lemma enumerate_items_value: "(b, v) \<in> set (enumerate_items xs) \<Longrightarrow> v \<in> set xs"
  by (auto simp: enumerate_items_def dest: set_zip_rightD)

lemma item_iter_cases:
  "item_iter c target = [] \<or>
   (\<exists>kvs. (target = PDict kvs \<or> target = PStrictDict kvs) \<and>
      item_iter c target = map (\<lambda>p. (init_bearing Item (fst p) None, snd p)) kvs) \<or>
   (\<exists>xs. (target = PList xs \<or> target = PTuple xs) \<and>
      item_iter c target = enumerate_items xs) \<or>
   (\<exists>s. target = PStr s \<and>
      item_iter c target = enumerate_items (map (\<lambda>ch. PStr [ch]) s))"
  by (cases target) (simp_all add: item_iter_def)

lemma item_iter_smaller:
  assumes "(b, v) \<in> set (item_iter c target)" and "\<not> is_end_point v"
  shows "size v < size target"
proof -
  from assms have ne: "item_iter c target \<noteq> []" by auto
  from item_iter_cases [of c target] ne consider
      (dict) kvs where "target = PDict kvs \<or> target = PStrictDict kvs"
        "item_iter c target = map (\<lambda>p. (init_bearing Item (fst p) None, snd p)) kvs"
    | (seq) xs where "target = PList xs \<or> target = PTuple xs"
        "item_iter c target = enumerate_items xs"
    | (str) s where "target = PStr s"
        "item_iter c target = enumerate_items (map (\<lambda>ch. PStr [ch]) s)"
    by blast
  then show ?thesis
  proof cases
    case dict
    with assms obtain k where "(k, v) \<in> set kvs" by auto
    then show ?thesis using dict(1) size_dict_value [of k v kvs] by auto
  next
    case seq
    with assms have "v \<in> set xs" by (auto dest: enumerate_items_value)
    then show ?thesis using seq(1) size_list_value [of v xs] by auto
  next
    case str
    with assms have "v \<in> set (map (\<lambda>ch. PStr [ch]) s)"
      by (auto dest: enumerate_items_value)
    then have "is_str v" by auto
    then show ?thesis using assms(2) by (simp add: is_end_point_def)
  qed
qed

lemma bearing_pairs_smaller:
  "(b, v) \<in> set (bearing_pairs c target) \<Longrightarrow> \<not> is_end_point v \<Longrightarrow> size v < size target"
  by (auto simp: bearing_pairs_def dest: attr_iter_smaller item_iter_smaller)

text \<open>
  \<^verbatim>\<open>_chart_layer\<close> in the order of its yields: a pair, or the error of a target no
  compass navigates. Read with \<^verbatim>\<open>exceptions=False\<close>; with \<^verbatim>\<open>exceptions=True\<close> the
  first error is raised instead, which \<open>chart\<close> accounts for.
\<close>

function chart_layer :: "surveyor \<Rightarrow> pyval \<Rightarrow> course \<Rightarrow> (exc + course \<times> pyval) list" where
  "chart_layer s target parent_course =
     (case choose_compass s target of
        None \<Rightarrow> [Inl NonNavigableError]
      | Some c \<Rightarrow>
          concat (map (\<lambda>p. Inr (parent_course @ [fst p], snd p) #
                            (if snd p = PNone \<or> is_end_point (snd p) then []
                             else chart_layer s (snd p) (parent_course @ [fst p])))
                    (bearing_pairs c target)))"
  by pat_completeness auto
termination
proof (relation "measure (\<lambda>(s, target, parent_course). size target)")
  show "wf (measure (\<lambda>(s, target, parent_course). size target))" by simp
next
  fix s :: surveyor and target :: pyval and parent_course :: course and x2 x
  assume "x \<in> set (bearing_pairs x2 target)" and "\<not> (snd x = PNone \<or> is_end_point (snd x))"
  then show "((s, snd x, parent_course @ [fst x]), s, target, parent_course)
               \<in> measure (\<lambda>(s, target, parent_course). size target)"
    using bearing_pairs_smaller [of "fst x" "snd x" x2 target] by simp
qed

text \<open>
  \<^verbatim>\<open>Surveyor.chart(target, exceptions)\<close>: the chart, or \<^verbatim>\<open>NonNavigableError\<close>, or
  \<^verbatim>\<open>SuppressedErrors\<close> with its \<^verbatim>\<open>errors\<close> and \<^verbatim>\<open>chart_partial\<close>.
\<close>

datatype chart_result =
    Chart "(course \<times> pyval) list"
  | ChartRaised exc
  | ChartSuppressed "exc list" "(course \<times> pyval) list"

fun lefts :: "('a + 'b) list \<Rightarrow> 'a list" where
  "lefts [] = []"
| "lefts (Inl a # rs) = a # lefts rs"
| "lefts (Inr b # rs) = lefts rs"

fun rights :: "('a + 'b) list \<Rightarrow> 'b list" where
  "rights [] = []"
| "rights (Inl a # rs) = rights rs"
| "rights (Inr b # rs) = b # rights rs"

definition chart :: "surveyor \<Rightarrow> pyval \<Rightarrow> bool \<Rightarrow> chart_result" where
  "chart s target exceptions =
     (let results = chart_layer s target [] in
      case lefts results of
        [] \<Rightarrow> Chart (rights results)
      | e # es \<Rightarrow>
          (if exceptions then ChartRaised e
           else ChartSuppressed (e # es) (rights results)))"


section \<open>Coordinates and the cartographer (\<^verbatim>\<open>_cartogrpaher.py\<close>)\<close>

text \<open>\<^verbatim>\<open>Cartographer.cache\<close>, a \<^verbatim>\<open>dict\<close>.\<close>

type_synonym cache = "(pyval \<times> pyval) list"

text \<open>
  The fields of a \<^verbatim>\<open>Coordinate\<close>: \<^verbatim>\<open>org\<close> is a course or a tuple of courses, \<^verbatim>\<open>dst\<close>
  is \<^verbatim>\<open>None\<close>, a course or a tuple of courses (an entry may be \<^verbatim>\<open>None\<close>), \<^verbatim>\<open>default\<close>
  is \<^verbatim>\<open>NO_DEFAULT\<close>, a tuple (an entry may be \<^verbatim>\<open>NO_DEFAULT\<close>, written \<open>None\<close>) or any
  other value.
\<close>

datatype org_arg = OrgOne course | OrgTuple "course list"

datatype dst_arg = DstNone | DstOne course | DstTuple "course option list"

datatype default_arg = NO_DEFAULT | DefaultTuple "pyval option list" | DefaultValue pyval

text \<open>\<^verbatim>\<open>CleanData\<close>, the scratch state of a coordinate during a run.\<close>

record clean_data =
  org_list :: "course list"
  dst_list :: "course option list"
  default_list :: "pyval option list"
  cd_value :: pyval

text \<open>What a cleaning function sees of a coordinate: its data and its scratch state.\<close>

record coord_view =
  org :: org_arg
  dst :: dst_arg
  coord_default :: default_arg
  clean :: clean_data

text \<open>
  A cleaning function gets the course or value, the coordinate and the cache; it
  returns its result or raises, and leaves the cache as it then is.
\<close>

type_synonym 'a hook = "'a \<Rightarrow> coord_view \<Rightarrow> cache \<Rightarrow> (exc + 'a) \<times> cache"

record coordinate =
  view :: coord_view
  clean_org :: "course hook option"
  clean_dst :: "course option hook option"
  clean_value :: "pyval hook option"

text \<open>\<^verbatim>\<open>CleanData.__post_init__\<close>\<close>

definition CleanData :: "org_arg \<Rightarrow> dst_arg \<Rightarrow> default_arg \<Rightarrow> clean_data" where
  "CleanData o_arg d_arg def_arg =
     (let ol = (case o_arg of OrgTuple cs \<Rightarrow> cs | OrgOne c \<Rightarrow> [c]) in
      \<lparr>org_list = ol,
       dst_list = (case d_arg of
                     DstNone \<Rightarrow> replicate (length ol) None
                   | DstTuple cs \<Rightarrow> cs
                   | DstOne c \<Rightarrow> [Some c]),
       default_list = (case def_arg of
                         NO_DEFAULT \<Rightarrow> map (\<lambda>x. None) ol
                       | DefaultTuple ds \<Rightarrow> ds
                       | DefaultValue v \<Rightarrow> (case v of PTuple vs \<Rightarrow> map Some vs | _ \<Rightarrow> [Some v])),
       cd_value = PNone\<rparr>)"

text \<open>\<^verbatim>\<open>Coordinate._validate_default_length\<close> and the construction of a coordinate.\<close>

definition validate_default_length :: "org_arg \<Rightarrow> default_arg \<Rightarrow> exc option" where
  "validate_default_length o_arg def_arg =
     (case def_arg of
        NO_DEFAULT \<Rightarrow> None
      | _ \<Rightarrow>
          (case o_arg of
             OrgOne c \<Rightarrow> None
           | OrgTuple cs \<Rightarrow>
               (case def_arg of
                  DefaultTuple ds \<Rightarrow> (if length cs \<noteq> length ds then Some ValueError else None)
                | DefaultValue v \<Rightarrow>
                    (case v of
                       PTuple vs \<Rightarrow> (if length cs \<noteq> length vs then Some ValueError else None)
                     | _ \<Rightarrow> Some ValueError)
                | NO_DEFAULT \<Rightarrow> None)))"

definition init_coordinate ::
  "org_arg \<Rightarrow> dst_arg \<Rightarrow> course hook option \<Rightarrow> course option hook option \<Rightarrow> pyval hook option
     \<Rightarrow> default_arg \<Rightarrow> coordinate" where
  "init_coordinate o_arg d_arg c_org c_dst c_value def_arg =
     \<lparr>view = \<lparr>org = o_arg, dst = d_arg, coord_default = def_arg, clean = CleanData o_arg d_arg def_arg\<rparr>,
      clean_org = c_org, clean_dst = c_dst, clean_value = c_value\<rparr>"

definition Coordinate ::
  "org_arg \<Rightarrow> dst_arg \<Rightarrow> course hook option \<Rightarrow> course option hook option \<Rightarrow> pyval hook option
     \<Rightarrow> default_arg \<Rightarrow> exc + coordinate" where
  "Coordinate o_arg d_arg c_org c_dst c_value def_arg =
     (case validate_default_length o_arg def_arg of
        Some e \<Rightarrow> Inl e
      | None \<Rightarrow> Inr (init_coordinate o_arg d_arg c_org c_dst c_value def_arg))"

text \<open>
  A cartographer: its cache and its three cleaning methods, which a subclass may
  override and which reach the cache through \<^verbatim>\<open>self\<close>.
\<close>

record cartographer =
  cache :: cache
  self_clean_org :: "course hook"
  self_clean_dst :: "course option hook"
  self_clean_value :: "pyval hook"

definition Cartographer_clean_org :: "course hook" where
  "Cartographer_clean_org course coordinate c = (Inr course, c)"

definition Cartographer_clean_dst :: "course option hook" where
  "Cartographer_clean_dst course coordinate c =
     (case course of
        None \<Rightarrow>
          (case org_list (clean coordinate) of
             [] \<Rightarrow> (Inl IndexError, c)
           | first # others \<Rightarrow>
               (Inr (Some (map (\<lambda>x. init_bearing Fallback (bname x) None) first)), c))
      | Some crs \<Rightarrow> (Inr (Some crs), c))"

definition Cartographer_clean_value :: "pyval hook" where
  "Cartographer_clean_value values coordinate c = (Inr values, c)"

text \<open>\<^verbatim>\<open>Cartographer.__init__\<close>\<close>

definition Cartographer_init :: cartographer where
  "Cartographer_init =
     \<lparr>cache = [], self_clean_org = Cartographer_clean_org,
      self_clean_dst = Cartographer_clean_dst, self_clean_value = Cartographer_clean_value\<rparr>"

text \<open>\<^verbatim>\<open>_get_cleaner\<close>: the function of the coordinate takes precedence.\<close>

definition get_cleaner :: "'a hook \<Rightarrow> 'a hook option \<Rightarrow> 'a hook" where
  "get_cleaner self_func coord_func = (case coord_func of Some f \<Rightarrow> f | None \<Rightarrow> self_func)"

text \<open>
  \<^verbatim>\<open>_clean_courses\<close>: each course of the list is replaced by its cleaned version, one
  after the other; \<open>put\<close> writes the list back into the scratch state, so that a later
  call sees the earlier replacements.
\<close>

fun clean_courses ::
  "'a hook \<Rightarrow> ('a list \<Rightarrow> coord_view \<Rightarrow> coord_view) \<Rightarrow> 'a list \<Rightarrow> 'a list \<Rightarrow> coord_view \<Rightarrow> cache
     \<Rightarrow> exc option \<times> coord_view \<times> cache" where
  "clean_courses cleaner put seen [] coord c = (None, coord, c)"
| "clean_courses cleaner put seen (course # rest) coord c =
     (case cleaner course coord c of
        (Inl e, c') \<Rightarrow> (Some e, coord, c')
      | (Inr cleaned, c') \<Rightarrow>
          clean_courses cleaner put (seen @ [cleaned]) rest
            (put (seen @ [cleaned] @ rest) coord) c')"

definition put_org_list :: "course list \<Rightarrow> coord_view \<Rightarrow> coord_view" where
  "put_org_list l coord = coord\<lparr>clean := (clean coord)\<lparr>org_list := l\<rparr>\<rparr>"

definition put_dst_list :: "course option list \<Rightarrow> coord_view \<Rightarrow> coord_view" where
  "put_dst_list l coord = coord\<lparr>clean := (clean coord)\<lparr>dst_list := l\<rparr>\<rparr>"

definition put_value :: "pyval \<Rightarrow> coord_view \<Rightarrow> coord_view" where
  "put_value v coord = coord\<lparr>clean := (clean coord)\<lparr>cd_value := v\<rparr>\<rparr>"

text \<open>\<^verbatim>\<open>_fetch_org_value\<close>\<close>

definition fetch_org_value ::
  "cartographer \<Rightarrow> pyval \<Rightarrow> coordinate \<Rightarrow> (exc + pyval) \<times> coordinate \<times> cartographer" where
  "fetch_org_value cart origin_root coord =
     (case clean_courses (get_cleaner (self_clean_org cart) (clean_org coord)) put_org_list []
             (org_list (clean (view coord))) (view coord) (cache cart) of
        (Some e, v, c) \<Rightarrow> (Inl e, coord\<lparr>view := v\<rparr>, cart\<lparr>cache := c\<rparr>)
      | (None, v, c) \<Rightarrow>
          (case collect (map (\<lambda>p. Course_fetch (fst p) origin_root (snd p))
                           (zip (org_list (clean v)) (default_list (clean v)))) of
             Inl e \<Rightarrow> (Inl e, coord\<lparr>view := v\<rparr>, cart\<lparr>cache := c\<rparr>)
           | Inr vs \<Rightarrow>
               (if length (org_list (clean v)) \<le> 1 then
                  (case vs of
                     [] \<Rightarrow> (Inl IndexError, coord\<lparr>view := v\<rparr>, cart\<lparr>cache := c\<rparr>)
                   | x # xs \<Rightarrow> (Inr x, coord\<lparr>view := v\<rparr>, cart\<lparr>cache := c\<rparr>))
                else (Inr (PTuple vs), coord\<lparr>view := v\<rparr>, cart\<lparr>cache := c\<rparr>))))"

text \<open>Iterating over a value, as \<^verbatim>\<open>zip(values, ...)\<close> does.\<close>

fun py_iter :: "pyval \<Rightarrow> exc + pyval list" where
  "py_iter (PTuple xs) = Inr xs"
| "py_iter (PList xs) = Inr xs"
| "py_iter (PDict kvs) = Inr (map fst kvs)"
| "py_iter (PStrictDict kvs) = Inr (map fst kvs)"
| "py_iter (PStr s) = Inr (map (\<lambda>ch. PStr [ch]) s)"
| "py_iter (PView k xs) = Inr xs"
| "py_iter v = Inl TypeError"

text \<open>The loop of \<^verbatim>\<open>_place_dst_value\<close> over the values and destinations.\<close>

fun place_values :: "(pyval \<times> course option) list \<Rightarrow> pyval \<Rightarrow> exc option \<times> pyval" where
  "place_values [] destination_root = (None, destination_root)"
| "place_values ((v, this_dst) # rest) destination_root =
     (case this_dst of
        None \<Rightarrow> place_values rest destination_root
      | Some d \<Rightarrow>
          (case Course_place d destination_root v of
             (Some e, root') \<Rightarrow> (Some e, root')
           | (None, root') \<Rightarrow> place_values rest root'))"

text \<open>\<^verbatim>\<open>_place_dst_value\<close>\<close>

definition place_dst_value ::
  "cartographer \<Rightarrow> pyval \<Rightarrow> coordinate \<Rightarrow> exc option \<times> pyval \<times> coordinate \<times> cartographer" where
  "place_dst_value cart destination_root coord =
     (case clean_courses (get_cleaner (self_clean_dst cart) (clean_dst coord)) put_dst_list []
             (dst_list (clean (view coord))) (view coord) (cache cart) of
        (Some e, v, c) \<Rightarrow> (Some e, destination_root, coord\<lparr>view := v\<rparr>, cart\<lparr>cache := c\<rparr>)
      | (None, v, c) \<Rightarrow>
          (case (if length (dst_list (clean v)) \<le> 1 then Inr [cd_value (clean v)]
                 else py_iter (cd_value (clean v))) of
             Inl e \<Rightarrow> (Some e, destination_root, coord\<lparr>view := v\<rparr>, cart\<lparr>cache := c\<rparr>)
           | Inr vals \<Rightarrow>
               (case place_values (zip vals (dst_list (clean v))) destination_root of
                  (r, root') \<Rightarrow> (r, root', coord\<lparr>view := v\<rparr>, cart\<lparr>cache := c\<rparr>))))"

text \<open>\<^verbatim>\<open>_map_coordinate\<close>: fetch (unless a value is there already), clean the value, place.\<close>

definition clean_and_place ::
  "cartographer \<Rightarrow> pyval \<Rightarrow> coordinate \<Rightarrow> exc option \<times> pyval \<times> coordinate \<times> cartographer" where
  "clean_and_place cart destination_root coord =
     (case get_cleaner (self_clean_value cart) (clean_value coord)
             (cd_value (clean (view coord))) (view coord) (cache cart) of
        (Inl e, c) \<Rightarrow> (Some e, destination_root, coord, cart\<lparr>cache := c\<rparr>)
      | (Inr v, c) \<Rightarrow>
          place_dst_value (cart\<lparr>cache := c\<rparr>) destination_root
            (coord\<lparr>view := put_value v (view coord)\<rparr>))"

definition map_coordinate ::
  "cartographer \<Rightarrow> pyval \<Rightarrow> pyval \<Rightarrow> coordinate
     \<Rightarrow> exc option \<times> pyval \<times> coordinate \<times> cartographer" where
  "map_coordinate cart origin_root destination_root coord =
     (if cd_value (clean (view coord)) = PNone then
        (case fetch_org_value cart origin_root coord of
           (Inl e, coord', cart') \<Rightarrow> (Some e, destination_root, coord', cart')
         | (Inr v, coord', cart') \<Rightarrow>
             clean_and_place cart' destination_root (coord'\<lparr>view := put_value v (view coord')\<rparr>))
      else clean_and_place cart destination_root coord)"

text \<open>
  The state of the loops of a run: the exception that ended it, if any, the courses
  mapped so far, the errors recorded, the destination, the coordinates and the
  cartographer as they are.
\<close>

record run_state =
  raised :: "exc option"
  mapped :: "course list"
  error_list :: "exc list"
  dst_root :: pyval
  coords :: "coordinate list"
  cart :: cartographer

text \<open>
  \<^verbatim>\<open>_map_coordinates\<close>. The origin is the same value for every coordinate: the run is
  modelled for roots that share no object, and a container that is fetched from the
  origin and placed in the destination is a copy there. In Python it is one object in
  both, so that a later coordinate that writes into it through the destination also
  changes the origin; for such a run the steps below the first write are not those of
  the code. The properties of this loop below are stated by the outcome of each step,
  or on runs that place strings and integers.
\<close>

fun map_coordinates :: "pyval \<Rightarrow> bool \<Rightarrow> coordinate list \<Rightarrow> run_state \<Rightarrow> run_state" where
  "map_coordinates origin_root exceptions [] st = st"
| "map_coordinates origin_root exceptions (coordinate # rest) st =
     (case map_coordinate (cart st) origin_root (dst_root st) coordinate of
        (Some error, root', coordinate', cart') \<Rightarrow>
          (if error = NullNameError \<and> \<not> exceptions then
             map_coordinates origin_root exceptions rest
               (st\<lparr>error_list := error_list st @ [error], dst_root := root',
                   coords := coords st @ [coordinate'], cart := cart'\<rparr>)
           else st\<lparr>raised := Some error, dst_root := root',
                    coords := coords st @ coordinate' # rest, cart := cart'\<rparr>)
      | (None, root', coordinate', cart') \<Rightarrow>
          (case org_list (clean (view coordinate')) of
             [] \<Rightarrow> st\<lparr>raised := Some IndexError, dst_root := root',
                       coords := coords st @ coordinate' # rest, cart := cart'\<rparr>
           | first # others \<Rightarrow>
               map_coordinates origin_root exceptions rest
                 (st\<lparr>mapped := mapped st @ [first], dst_root := root',
                     coords := coords st @ [coordinate'], cart := cart'\<rparr>)))"

text \<open>
  \<^verbatim>\<open>_map_survey_chart\<close>: a charted course is skipped when a mapped course contains it or
  it contains a mapped course; otherwise it is mapped from the charted value and
  joins the mapped courses, also after a suppressed failure.
\<close>

definition skipped :: "course list \<Rightarrow> course \<Rightarrow> bool" where
  "skipped mapped_courses course =
     (list_ex (\<lambda>x. Course_contains x course) mapped_courses \<or>
      list_ex (\<lambda>x. Course_contains course x) mapped_courses)"

definition survey_coordinate :: "course \<Rightarrow> pyval \<Rightarrow> coordinate" where
  "survey_coordinate course v =
     (let coordinate = init_coordinate (OrgOne course) DstNone None None None NO_DEFAULT
      in coordinate\<lparr>view := put_value v (view coordinate)\<rparr>)"

fun map_survey_chart ::
  "pyval \<Rightarrow> bool \<Rightarrow> (course \<times> pyval) list \<Rightarrow> run_state \<Rightarrow> run_state" where
  "map_survey_chart origin_root exceptions [] st = st"
| "map_survey_chart origin_root exceptions ((course, v) # rest) st =
     (if skipped (mapped st) course then map_survey_chart origin_root exceptions rest st
      else
        (case map_coordinate (cart st) origin_root (dst_root st) (survey_coordinate course v) of
           (Some error, root', coordinate', cart') \<Rightarrow>
             (if error = NullNameError \<and> \<not> exceptions then
                map_survey_chart origin_root exceptions rest
                  (st\<lparr>error_list := error_list st @ [error], mapped := mapped st @ [course],
                      dst_root := root', cart := cart'\<rparr>)
              else st\<lparr>raised := Some error, dst_root := root', cart := cart'\<rparr>)
         | (None, root', coordinate', cart') \<Rightarrow>
             map_survey_chart origin_root exceptions rest
               (st\<lparr>mapped := mapped st @ [course], dst_root := root', cart := cart'\<rparr>)))"

text \<open>
  \<^verbatim>\<open>list.sort(key=key, reverse=True)\<close>: descending by key, entries of equal keys in
  their old order. The key of \<^verbatim>\<open>_chart_survey\<close> is \<^verbatim>\<open>lambda x: len(x)\<close> on the entries
  of the chart, which are the pairs \<^verbatim>\<open>(course, value)\<close>: the length of a pair.
\<close>

definition py_sort_reverse :: "('a \<Rightarrow> nat) \<Rightarrow> 'a list \<Rightarrow> 'a list" where
  "py_sort_reverse key xs = rev (sort_key key (rev xs))"

definition len_pair :: "'a \<times> 'b \<Rightarrow> nat" where
  "len_pair x = 2"

text \<open>\<^verbatim>\<open>_chart_survey\<close>\<close>

definition chart_survey :: "pyval \<Rightarrow> surveyor \<Rightarrow> bool \<Rightarrow> run_state \<Rightarrow> run_state" where
  "chart_survey origin_root srv exceptions st =
     (case chart srv origin_root exceptions of
        ChartRaised e \<Rightarrow> st\<lparr>raised := Some e\<rparr>
      | ChartSuppressed errors chart_partial \<Rightarrow>
          map_survey_chart origin_root exceptions (py_sort_reverse len_pair chart_partial)
            (st\<lparr>error_list := error_list st @ errors\<rparr>)
      | Chart course_chart \<Rightarrow>
          map_survey_chart origin_root exceptions (py_sort_reverse len_pair course_chart) st)"

text \<open>
  \<^verbatim>\<open>Cartographer.map(origin_root, dst_root, coordinates=None, surveyor=None,
  exceptions=True)\<close>. An argument left out is \<open>None\<close>. The result is what the call
  raises, if anything, and everything it has changed.
\<close>

datatype map_exc = Raised exc | SuppressedErrors "exc list"

record map_result =
  map_raised :: "map_exc option"
  map_dst_root :: pyval
  map_cart :: cartographer
  map_coords :: "coordinate list"
  map_mapped :: "course list"

definition reset_clean :: "coordinate \<Rightarrow> coordinate" where
  "reset_clean coord =
     coord\<lparr>view := (view coord)\<lparr>clean := CleanData (org (view coord)) (dst (view coord))
                                             (coord_default (view coord))\<rparr>\<rparr>"

definition finish_map :: "run_state \<Rightarrow> map_result" where
  "finish_map st =
     \<lparr>map_raised =
        (case raised st of
           Some e \<Rightarrow> Some (Raised e)
         | None \<Rightarrow> (if error_list st \<noteq> [] then Some (SuppressedErrors (error_list st)) else None)),
      map_dst_root = dst_root st, map_cart = cart st, map_coords = coords st,
      map_mapped = mapped st\<rparr>"

definition Cartographer_map ::
  "cartographer \<Rightarrow> pyval \<Rightarrow> pyval \<Rightarrow> coordinate list option \<Rightarrow> surveyor option \<Rightarrow> bool option
     \<Rightarrow> map_result" where
  "Cartographer_map self origin_root destination_root coordinates srv exceptions_arg =
     (let coordinates = (case coordinates of None \<Rightarrow> [] | Some cs \<Rightarrow> cs);
          exceptions = (case exceptions_arg of None \<Rightarrow> True | Some b \<Rightarrow> b);
          st = map_coordinates origin_root exceptions (map reset_clean coordinates)
                 \<lparr>raised = None, mapped = [], error_list = [], dst_root = destination_root,
                  coords = [], cart = self\<rparr>
      in case raised st of
           Some e \<Rightarrow> finish_map st
         | None \<Rightarrow>
             (case srv of
                None \<Rightarrow> finish_map st
              | Some s \<Rightarrow> finish_map (chart_survey origin_root s exceptions st)))"

text \<open>
  The \<^verbatim>\<open>coordinates\<close> of \<^verbatim>\<open>map\<close> are iterated twice: by the loop that renews the scratch
  state and by \<^verbatim>\<open>_map_coordinates\<close>. A list or a tuple gives its coordinates both times,
  which is \<open>Cartographer_map\<close> above. An iterator that can be run through only once (a
  generator) gives them to the first loop and nothing to the second: the scratch
  states are renewed and no coordinate is mapped.
\<close>

datatype 'a iterable = Collection "'a list" | Iterator "'a list"

definition Cartographer_map_of ::
  "cartographer \<Rightarrow> pyval \<Rightarrow> pyval \<Rightarrow> coordinate iterable option \<Rightarrow> surveyor option
     \<Rightarrow> bool option \<Rightarrow> map_result" where
  "Cartographer_map_of self origin_root destination_root coordinates srv exceptions_arg =
     (case coordinates of
        None \<Rightarrow> Cartographer_map self origin_root destination_root None srv exceptions_arg
      | Some (Collection cs) \<Rightarrow>
          Cartographer_map self origin_root destination_root (Some cs) srv exceptions_arg
      | Some (Iterator cs) \<Rightarrow>
          (Cartographer_map self origin_root destination_root None srv exceptions_arg)
            \<lparr>map_coords := map reset_clean cs\<rparr>)"

text \<open>
  The loop of \<^verbatim>\<open>_map_coordinates\<close> once more, with the call of \<^verbatim>\<open>_map_coordinate\<close> left
  open. The world \<open>w\<close> is everything the call can read or change: the two roots, the
  cartographer with its cache, the scratch state of the coordinates, and whatever
  object they share. \<open>step w c\<close> is the call for the coordinate \<open>c\<close> in the world \<open>w\<close>:
  the exception it raises, if any, and the world as it is afterwards.
  \<open>first_org w c\<close> is \<^verbatim>\<open>coordinate.clean.org_list[0]\<close> as that world has it, \<open>None\<close> when
  the list is empty (an \<^verbatim>\<open>IndexError\<close>). What is proved of this loop for every \<open>step\<close>
  does not rest on how the values of a run are modelled.
\<close>

record ('w, 'r) loop_state =
  ls_raised :: "exc option"
  ls_mapped :: "'r list"
  ls_errors :: "exc list"
  ls_world :: 'w

definition loop_start :: "'w \<Rightarrow> ('w, 'r) loop_state" where
  "loop_start w = \<lparr>ls_raised = None, ls_mapped = [], ls_errors = [], ls_world = w\<rparr>"

fun coordinates_loop ::
  "('w \<Rightarrow> 'c \<Rightarrow> exc option \<times> 'w) \<Rightarrow> ('w \<Rightarrow> 'c \<Rightarrow> 'r option) \<Rightarrow> bool \<Rightarrow> 'c list
     \<Rightarrow> ('w, 'r) loop_state \<Rightarrow> ('w, 'r) loop_state" where
  "coordinates_loop step first_org exceptions [] st = st"
| "coordinates_loop step first_org exceptions (coordinate # rest) st =
     (case step (ls_world st) coordinate of
        (Some error, w') \<Rightarrow>
          (if error = NullNameError \<and> \<not> exceptions then
             coordinates_loop step first_org exceptions rest
               (st\<lparr>ls_errors := ls_errors st @ [error], ls_world := w'\<rparr>)
           else st\<lparr>ls_raised := Some error, ls_world := w'\<rparr>)
      | (None, w') \<Rightarrow>
          (case first_org w' coordinate of
             None \<Rightarrow> st\<lparr>ls_raised := Some IndexError, ls_world := w'\<rparr>
           | Some first \<Rightarrow>
               coordinates_loop step first_org exceptions rest
                 (st\<lparr>ls_mapped := ls_mapped st @ [first], ls_world := w'\<rparr>)))"

text \<open>
  The outcome of each iteration that the loop runs with \<^verbatim>\<open>exceptions=False\<close>, in order:
  \<open>None\<close> for a coordinate that is mapped, the exception otherwise. An exception other
  than \<^verbatim>\<open>NullNameError\<close> is the last outcome: it ends the loop.
\<close>

fun loop_outcomes ::
  "('w \<Rightarrow> 'c \<Rightarrow> exc option \<times> 'w) \<Rightarrow> ('w \<Rightarrow> 'c \<Rightarrow> 'r option) \<Rightarrow> 'c list \<Rightarrow> 'w
     \<Rightarrow> exc option list" where
  "loop_outcomes step first_org [] w = []"
| "loop_outcomes step first_org (coordinate # rest) w =
     (case step w coordinate of
        (Some error, w') \<Rightarrow>
          Some error
          # (if error = NullNameError then loop_outcomes step first_org rest w' else [])
      | (None, w') \<Rightarrow>
          (case first_org w' coordinate of
             None \<Rightarrow> [Some IndexError]
           | Some first \<Rightarrow> None # loop_outcomes step first_org rest w'))"

text \<open>
  \<^verbatim>\<open>_map_coordinate\<close> as such a step. The world of the model is the destination, the
  cartographer and the coordinates already gone through, as their calls left them;
  the origin stays what it is (no object of it is taken to be in the destination).
\<close>

type_synonym map_world = "pyval \<times> cartographer \<times> coordinate list"

definition map_step :: "pyval \<Rightarrow> map_world \<Rightarrow> coordinate \<Rightarrow> exc option \<times> map_world" where
  "map_step origin_root w coordinate =
     (case w of
        (destination_root, crt, seen) \<Rightarrow>
          (case map_coordinate crt origin_root destination_root coordinate of
             (r, root', coordinate', crt') \<Rightarrow> (r, (root', crt', seen @ [coordinate']))))"

definition first_org_of :: "map_world \<Rightarrow> coordinate \<Rightarrow> course option" where
  "first_org_of w coordinate =
     (case w of
        (destination_root, crt, seen) \<Rightarrow>
          (if seen = [] then None
           else case org_list (clean (view (last seen))) of
                  [] \<Rightarrow> None
                | first # others \<Rightarrow> Some first))"

text \<open>
  The loop and its outcomes for a call of \<^verbatim>\<open>map\<close> with a list of coordinates and no
  surveyor.
\<close>

definition map_loop ::
  "bool \<Rightarrow> cartographer \<Rightarrow> pyval \<Rightarrow> pyval \<Rightarrow> coordinate list \<Rightarrow> (map_world, course) loop_state" where
  "map_loop exceptions self origin_root destination_root coordinates =
     coordinates_loop (map_step origin_root) first_org_of exceptions (map reset_clean coordinates)
       (loop_start (destination_root, self, []))"

definition map_outcomes ::
  "cartographer \<Rightarrow> pyval \<Rightarrow> pyval \<Rightarrow> coordinate list \<Rightarrow> exc option list" where
  "map_outcomes self origin_root destination_root coordinates =
     loop_outcomes (map_step origin_root) first_org_of (map reset_clean coordinates)
       (destination_root, self, [])"


section \<open>Inputs the properties below are stated for\<close>

text \<open>
  \<^verbatim>\<open>Coordinate(org=Course(Item(k)))\<close>: one origin course of one \<^verbatim>\<open>Item\<close>, no destination
  (the cartographer mirrors the origin with \<^verbatim>\<open>Fallback\<close> bearings), no cleaning
  function, no default.
\<close>

definition key_coordinate :: "pyval \<Rightarrow> coordinate" where
  "key_coordinate k =
     init_coordinate (OrgOne [init_bearing Item k None]) DstNone None None None NO_DEFAULT"

text \<open>A cartographer whose cleaning methods are those of \<^verbatim>\<open>Cartographer\<close> itself.\<close>

definition default_methods :: "cartographer \<Rightarrow> bool" where
  "default_methods self =
     (self_clean_org self = Cartographer_clean_org \<and>
      self_clean_dst self = Cartographer_clean_dst \<and>
      self_clean_value self = Cartographer_clean_value)"

text \<open>
  \<^verbatim>\<open>Coordinate(org=crs)\<close> and \<^verbatim>\<open>Coordinate(org=crs, dst=dc)\<close>: one origin course, no
  cleaning function, no default.
\<close>

definition plain :: "course \<Rightarrow> dst_arg \<Rightarrow> coordinate" where
  "plain crs da = init_coordinate (OrgOne crs) da None None None NO_DEFAULT"

text \<open>\<^verbatim>\<open>PORT / n1 / ... / nk\<close> for names \<^verbatim>\<open>"a"\<close>, \<^verbatim>\<open>"b"\<close>, ...: each becomes a \<^verbatim>\<open>Fallback\<close>.\<close>

definition port :: "string list \<Rightarrow> course" where
  "port names = map (\<lambda>n. init_bearing Fallback (PStr n) None) names"

text \<open>
  The outcome of an iteration that lets the loop go on in the suppressed mode: the
  coordinate is mapped, or its call raises \<^verbatim>\<open>NullNameError\<close>.
\<close>

definition suppressed_outcome :: "exc option \<Rightarrow> bool" where
  "suppressed_outcome r = (r = None \<or> r = Some NullNameError)"

text \<open>
  A run in the manner of \<^verbatim>\<open>test_raises_suppressed_null_name_source\<close>, with five
  coordinates, a course of two bearings at the origin and one at the destination:
  the origin \<^verbatim>\<open>{"a": "a value", "d": {"x": 1}}\<close>, the destination \<^verbatim>\<open>{"n": {}}\<close> and the
  coordinates \<^verbatim>\<open>a\<close>, \<^verbatim>\<open>b\<close>, \<^verbatim>\<open>d/x\<close> to \<^verbatim>\<open>n/y\<close>, \<^verbatim>\<open>d/z\<close> and \<^verbatim>\<open>c\<close>.
\<close>

definition five_origin :: pyval where
  "five_origin = PDict [(PStr ''a'', PStr ''a value''), (PStr ''d'', PDict [(PStr ''x'', PInt 1)])]"

definition five_destination :: pyval where
  "five_destination = PDict [(PStr ''n'', PDict [])]"

definition five_coordinates :: "coordinate list" where
  "five_coordinates =
     [plain (port [''a'']) DstNone,
      plain (port [''b'']) DstNone,
      plain (port [''d'', ''x'']) (DstOne (port [''n'', ''y''])),
      plain (port [''d'', ''z'']) DstNone,
      plain (port [''c'']) DstNone]"

text \<open>
  A run whose second coordinate does not raise \<^verbatim>\<open>NullNameError\<close>: on the origin
  \<^verbatim>\<open>{"a": 5}\<close> the course \<^verbatim>\<open>Course(Item("a"), Item("x"))\<close> raises the \<^verbatim>\<open>TypeError\<close> of
  \<^verbatim>\<open>5["x"]\<close>.
\<close>

definition other_coordinates :: "coordinate list" where
  "other_coordinates =
     [plain (port [''b'']) DstNone,
      plain [init_bearing Item (PStr ''a'') None, init_bearing Item (PStr ''x'') None] DstNone,
      plain (port [''a'']) DstNone]"

text \<open>The state \<^verbatim>\<open>map\<close> starts its loops in.\<close>

definition start_state :: "cartographer \<Rightarrow> pyval \<Rightarrow> run_state" where
  "start_state self destination_root =
     \<lparr>raised = None, mapped = [], error_list = [], dst_root = destination_root,
      coords = [], cart = self\<rparr>"

text \<open>
  Two cleaning functions for values: one stores the value in the cache under
  \<^verbatim>\<open>"seen"\<close>, the other returns what the cache holds under \<^verbatim>\<open>"seen"\<close>
  (\<^verbatim>\<open>cache["seen"]\<close>, a \<^verbatim>\<open>KeyError\<close> when absent).
\<close>

definition cache_writer :: "pyval hook" where
  "cache_writer v coordinate c = (Inr v, dict_set c (PStr ''seen'') v)"

definition cache_reader :: "pyval hook" where
  "cache_reader v coordinate c =
     (case map_of c (PStr ''seen'') of None \<Rightarrow> (Inl KeyError, c) | Some x \<Rightarrow> (Inr x, c))"


section \<open>Properties of bearings\<close>

lemma append_none_replicate: "append_none k xs = xs @ replicate k PNone"
  by (induction k arbitrary: xs) (simp_all add: replicate_append_same)

lemma Item_place_beyond:
  assumes "bname self = PInt p" and "int (length xs) \<le> p"
  shows "Item_place self (PList xs) v =
           Inr (PList (xs @ replicate (nat p - length xs) PNone @ [v]))"
proof -
  let ?n = "length xs"
  let ?k = "nat (p + 1 - int ?n)"
  have k: "?k = Suc (nat p - ?n)" using assms(2) by linarith
  have none: "py_index ?n p = None" using assms(2) by (simp add: py_index_def)
  have len: "length (append_none ?k xs) = Suc (nat p)"
    using assms(2) by (simp add: append_none_replicate k)
  have some: "py_index (length (append_none ?k xs)) p = Some (nat p)"
    using assms(2) by (simp add: len py_index_def)
  have upd: "(append_none ?k xs)[nat p := v] = xs @ replicate (nat p - ?n) PNone @ [v]"
  proof -
    have "append_none ?k xs = (xs @ replicate (nat p - ?n) PNone) @ [PNone]"
      by (simp add: append_none_replicate k replicate_append_same)
    moreover have "length (xs @ replicate (nat p - ?n) PNone) = nat p"
      using assms(2) by simp
    ultimately show ?thesis by (metis append.assoc list_update_length)
  qed
  show ?thesis
    using none some upd by (simp add: Item_place_def assms(1))
qed

lemma py_setitem_not_NullName: "py_setitem t k v \<noteq> Inl NullNameError"
  by (cases t) (auto split: pyval.splits option.splits)

lemma dict_set_new: "map_of kvs k = None \<Longrightarrow> dict_set kvs k v = kvs @ [(k, v)]"
  by (induction kvs) (auto split: if_splits)

lemma Item_place_NullName_iff:
  "Item_place self target v = Inl NullNameError \<longleftrightarrow>
     (py_setitem target (bname self) v = Inl KeyError \<or>
      (py_setitem target (bname self) v = Inl IndexError \<and>
       \<not> (is_list target \<and> is_int (bname self))))"
  using py_setitem_not_NullName
  by (auto simp: Item_place_def split: sum.splits)

lemma Fallback_fetch_loop_Cons:
  "Fallback_fetch_loop class_fetch (c # cs) self t =
     (case attempt_fetch c self t of
        Inr v \<Rightarrow> Inr v
      | Inl e \<Rightarrow> if caught e then Fallback_fetch_loop class_fetch cs self t else Inl e)"
  by (simp add: attempt_fetch_def new_bearing_def caught_def split: sum.splits)

lemma Fallback_fetch_loop_first_success:
  assumes "\<forall>d\<in>set pre. \<exists>e. attempt_fetch d self t = Inl e \<and> caught e"
    and "attempt_fetch c self t = Inr v"
  shows "Fallback_fetch_loop class_fetch (pre @ c # post) self t = Inr v"
  using assms
proof (induction pre)
  case Nil
  then show ?case by (simp add: Fallback_fetch_loop_Cons del: Fallback_fetch_loop.simps)
next
  case (Cons a pre)
  then show ?case by (auto simp: Fallback_fetch_loop_Cons simp del: Fallback_fetch_loop.simps)
qed

lemma Fallback_fetch_loop_all_fail:
  assumes "\<forall>d\<in>set cs. \<exists>e. attempt_fetch d self t = Inl e \<and> caught e"
  shows "Fallback_fetch_loop class_fetch cs self t = Inl NullNameError"
  using assms
proof (induction cs)
  case Nil
  then show ?case by simp
next
  case (Cons a cs)
  then show ?case by (auto simp: Fallback_fetch_loop_Cons simp del: Fallback_fetch_loop.simps)
qed

lemma isinstance_builtin:
  "builtin_variant c \<Longrightarrow> builtin_variant d \<Longrightarrow> (c \<in> set (mro d)) = (c = d)"
  by (cases c; cases d) simp_all

text \<open>
  C4. \<^verbatim>\<open>Fallback.fetch\<close> goes through the configured classes in order (by default
  \<^verbatim>\<open>Item\<close>, then \<^verbatim>\<open>Call\<close>, then \<^verbatim>\<open>Attr\<close>), casts itself to each class and calls the
  \<^verbatim>\<open>fetch\<close> of the cast bearing. An attempt that raises \<^verbatim>\<open>NullNameError\<close>,
  \<^verbatim>\<open>TypeError\<close> or \<^verbatim>\<open>ValueError\<close> hands over to the next class; the value of the first
  attempt that succeeds is returned; when every attempt fails in one of these three
  ways, \<^verbatim>\<open>NullNameError\<close> is raised.
\<close>

theorem Fallback_fetch_tries_in_order:
  "BEARING_CLASSES (init_bearing Fallback n None) = [Item, Call, Attr]
   \<and> Fallback_fetch self target = Fallback_fetch_loop class_fetch (BEARING_CLASSES self) self target
   \<and> (\<forall>c cs. (\<exists>e. attempt_fetch c self target = Inl e \<and> caught e) \<longrightarrow>
         Fallback_fetch_loop class_fetch (c # cs) self target
           = Fallback_fetch_loop class_fetch cs self target)
   \<and> (\<forall>pre c post v.
         BEARING_CLASSES self = pre @ c # post \<and>
         (\<forall>d\<in>set pre. \<exists>e. attempt_fetch d self target = Inl e \<and> caught e) \<and>
         attempt_fetch c self target = Inr v \<longrightarrow>
         Fallback_fetch self target = Inr v)
   \<and> ((\<forall>d\<in>set (BEARING_CLASSES self). \<exists>e. attempt_fetch d self target = Inl e \<and> caught e) \<longrightarrow>
         Fallback_fetch self target = Inl NullNameError)"
proof (intro conjI allI impI)
  show "BEARING_CLASSES (init_bearing Fallback n None) = [Item, Call, Attr]"
    by (simp add: init_bearing_def BEARING_CLASSES_default_def)
next
  show "Fallback_fetch self target = Fallback_fetch_loop class_fetch (BEARING_CLASSES self) self target"
    by (simp add: Fallback_fetch_def)
next
  fix c cs
  assume "\<exists>e. attempt_fetch c self target = Inl e \<and> caught e"
  then show "Fallback_fetch_loop class_fetch (c # cs) self target
               = Fallback_fetch_loop class_fetch cs self target"
    by (auto simp: Fallback_fetch_loop_Cons simp del: Fallback_fetch_loop.simps)
next
  fix pre c post v
  assume "BEARING_CLASSES self = pre @ c # post \<and>
          (\<forall>d\<in>set pre. \<exists>e. attempt_fetch d self target = Inl e \<and> caught e) \<and>
          attempt_fetch c self target = Inr v"
  then show "Fallback_fetch self target = Inr v"
    by (simp add: Fallback_fetch_def Fallback_fetch_loop_first_success
          del: Fallback_fetch_loop.simps)
next
  assume "\<forall>d\<in>set (BEARING_CLASSES self). \<exists>e. attempt_fetch d self target = Inl e \<and> caught e"
  then show "Fallback_fetch self target = Inl NullNameError"
    by (simp add: Fallback_fetch_def Fallback_fetch_loop_all_fail)
qed

theorem Fallback_fetch_tries_in_order_witness:
  "Fallback_fetch (init_bearing Fallback (PStr ''a'') None)
     (PObj ''FetchMethod'' [(''a'', PCallable (PStr ''a method''))]) = Inr (PStr ''a method'')
   \<and> Fallback_fetch (init_bearing Fallback (PStr ''a'') None) (PDict [(PStr ''b'', PInt 1)])
       = Inl NullNameError"
proof -
  let ?self = "init_bearing Fallback (PStr ''a'') None"
  let ?obj = "PObj ''FetchMethod'' [(''a'', PCallable (PStr ''a method''))]"
  let ?dict = "PDict [(PStr ''b'', PInt 1)]"
  have cls: "BEARING_CLASSES ?self = [Item] @ Call # [Attr]"
    by (simp add: init_bearing_def BEARING_CLASSES_default_def)
  have item: "\<forall>d\<in>set [Item]. \<exists>e. attempt_fetch d ?self ?obj = Inl e \<and> caught e"
    by (simp add: attempt_fetch_def new_bearing_def is_compatible_def init_bearing_def
          class_fetch_def concrete_fetch_def Item_fetch_def caught_def)
  have call: "attempt_fetch Call ?self ?obj = Inr (PStr ''a method'')"
    by (simp add: attempt_fetch_def new_bearing_def is_compatible_def init_bearing_def
          class_fetch_def concrete_fetch_def Call_fetch_def py_getattr_def)
  have none: "\<forall>d\<in>set (BEARING_CLASSES ?self). \<exists>e. attempt_fetch d ?self ?dict = Inl e \<and> caught e"
    by (simp add: attempt_fetch_def new_bearing_def is_compatible_def init_bearing_def
          BEARING_CLASSES_default_def class_fetch_def concrete_fetch_def Item_fetch_def
          Call_fetch_def Attr_fetch_def py_getattr_def dict_names_def caught_def)
  from Fallback_fetch_tries_in_order [of "PStr ''a''" ?self ?obj] cls item call
  have "Fallback_fetch ?self ?obj = Inr (PStr ''a method'')" by blast
  moreover from Fallback_fetch_tries_in_order [of "PStr ''a''" ?self ?dict] none
  have "Fallback_fetch ?self ?dict = Inl NullNameError" by blast
  ultimately show ?thesis by simp
qed

text \<open>
  An exception of an attempt other than the three that are caught is not a failure the
  loop steps over: it leaves \<^verbatim>\<open>Fallback.fetch\<close> as it is. Here the method \<^verbatim>\<open>a\<close> raises
  \<^verbatim>\<open>RuntimeError\<close> when \<^verbatim>\<open>Call\<close> calls it, and \<^verbatim>\<open>Attr\<close> is never tried.
\<close>

lemma Fallback_fetch_other_exception:
  "Fallback_fetch (init_bearing Fallback (PStr ''a'') None)
     (PObj ''Raises'' [(''a'', PRaiser RuntimeError)]) = Inl RuntimeError"
  by (simp add: Fallback_fetch_def init_bearing_def BEARING_CLASSES_default_def new_bearing_def
        is_compatible_def class_fetch_def concrete_fetch_def Item_fetch_def Call_fetch_def
        py_getattr_def caught_def)

text \<open>
  C6 (as the code has it). \<^verbatim>\<open>a == b\<close> holds exactly when the names are equal and one
  bearing is an instance of the other's class (the same class or a subclass of it), or
  either side is a \<^verbatim>\<open>Fallback\<close> whose \<^verbatim>\<open>BEARING_CLASSES\<close> holds the other's class. Between
  the four classes of the module, being an instance of the other's class is having the
  same class. A \<^verbatim>\<open>Fallback\<close> whose list holds the other's class and whose name is the
  other's name is equal to it in both directions.
\<close>

theorem bearing_eq_iff:
  "bearing_eq a (Bearing b) =
     Inr (bname a = bname b \<and>
          (isinstance b (btype a) \<or> isinstance a (btype b) \<or>
           (isinstance b Fallback \<and> btype a \<in> set (BEARING_CLASSES b)) \<or>
           (isinstance a Fallback \<and> btype b \<in> set (BEARING_CLASSES a))))
   \<and> (builtin_variant (btype a) \<and> builtin_variant (btype b) \<longrightarrow>
        bearing_eq a (Bearing b) =
          Inr (bname a = bname b \<and>
               (btype a = btype b \<or>
                (btype b = Fallback \<and> btype a \<in> set (BEARING_CLASSES b)) \<or>
                (btype a = Fallback \<and> btype b \<in> set (BEARING_CLASSES a)))))
   \<and> (bname a = bname b \<and> isinstance a Fallback \<and> btype b \<in> set (BEARING_CLASSES a) \<longrightarrow>
        bearing_eq a (Bearing b) = Inr True \<and> bearing_eq b (Bearing a) = Inr True)"
proof (intro conjI impI)
  show "bearing_eq a (Bearing b) =
     Inr (bname a = bname b \<and>
          (isinstance b (btype a) \<or> isinstance a (btype b) \<or>
           (isinstance b Fallback \<and> btype a \<in> set (BEARING_CLASSES b)) \<or>
           (isinstance a Fallback \<and> btype b \<in> set (BEARING_CLASSES a))))"
    by auto
next
  assume bv: "builtin_variant (btype a) \<and> builtin_variant (btype b)"
  have 1: "isinstance b (btype a) = (btype a = btype b)"
    using bv by (simp add: isinstance_def isinstance_builtin)
  have 2: "isinstance a (btype b) = (btype a = btype b)"
    using bv by (auto simp: isinstance_def isinstance_builtin)
  have 3: "isinstance a Fallback = (btype a = Fallback)"
    using bv by (auto simp: isinstance_def isinstance_builtin)
  have 4: "isinstance b Fallback = (btype b = Fallback)"
    using bv by (auto simp: isinstance_def isinstance_builtin)
  show "bearing_eq a (Bearing b) =
          Inr (bname a = bname b \<and>
               (btype a = btype b \<or>
                (btype b = Fallback \<and> btype a \<in> set (BEARING_CLASSES b)) \<or>
                (btype a = Fallback \<and> btype b \<in> set (BEARING_CLASSES a))))"
    by (auto simp: 1 2 3 4)
next
  assume "bname a = bname b \<and> isinstance a Fallback \<and> btype b \<in> set (BEARING_CLASSES a)"
  then show "bearing_eq a (Bearing b) = Inr True" by simp
next
  assume "bname a = bname b \<and> isinstance a Fallback \<and> btype b \<in> set (BEARING_CLASSES a)"
  then show "bearing_eq b (Bearing a) = Inr True" by simp
qed

theorem bearing_eq_iff_witness:
  "bearing_eq (init_bearing Fallback (PStr ''a'') None)
     (Bearing (init_bearing Item (PStr ''a'') None)) = Inr True
   \<and> bearing_eq (init_bearing Item (PStr ''a'') None)
       (Bearing (init_bearing Fallback (PStr ''a'') None)) = Inr True
   \<and> bearing_eq (init_bearing Item (PStr ''a'') None)
       (Bearing (init_bearing Attr (PStr ''a'') None)) = Inr False"
proof -
  let ?f = "init_bearing Fallback (PStr ''a'') None"
  let ?i = "init_bearing Item (PStr ''a'') None"
  let ?t = "init_bearing Attr (PStr ''a'') None"
  have h: "bname ?f = bname ?i \<and> isinstance ?f Fallback \<and> btype ?i \<in> set (BEARING_CLASSES ?f)"
    by (simp add: init_bearing_def isinstance_def BEARING_CLASSES_default_def)
  have b: "builtin_variant (btype ?i) \<and> builtin_variant (btype ?t)"
    by (simp add: init_bearing_def)
  from bearing_eq_iff [of ?f ?i] h
  have "bearing_eq ?f (Bearing ?i) = Inr True \<and> bearing_eq ?i (Bearing ?f) = Inr True"
    by blast
  moreover from bearing_eq_iff [of ?i ?t] b
  have "bearing_eq ?i (Bearing ?t) =
          Inr (bname ?i = bname ?t \<and>
               (btype ?i = btype ?t \<or>
                (btype ?t = Fallback \<and> btype ?i \<in> set (BEARING_CLASSES ?t)) \<or>
                (btype ?i = Fallback \<and> btype ?t \<in> set (BEARING_CLASSES ?i))))"
    by blast
  then have "bearing_eq ?i (Bearing ?t) = Inr False"
    by (simp add: init_bearing_def)
  ultimately show ?thesis by simp
qed

text \<open>
  C6 as the specification words it fails: an instance of a class derived from \<^verbatim>\<open>Item\<close>
  (\<^verbatim>\<open>class MyItem(Item): pass\<close>) is equal to an \<^verbatim>\<open>Item\<close> of the same name, and so is a
  plain \<^verbatim>\<open>BearingAbstract\<close> to an \<^verbatim>\<open>Attr\<close>, although the types differ and neither side
  is a \<^verbatim>\<open>Fallback\<close>.
\<close>

theorem bearing_eq_types_differ_counterexample:
  "bearing_eq (init_bearing (Sub ''MyItem'' Item) (PStr ''a'') None)
     (Bearing (init_bearing Item (PStr ''a'') None)) = Inr True
   \<and> btype (init_bearing (Sub ''MyItem'' Item) (PStr ''a'') None)
       \<noteq> btype (init_bearing Item (PStr ''a'') None)
   \<and> \<not> isinstance (init_bearing (Sub ''MyItem'' Item) (PStr ''a'') None) Fallback
   \<and> \<not> isinstance (init_bearing Item (PStr ''a'') None) Fallback
   \<and> bearing_eq (init_bearing BearingAbstract (PStr ''a'') None)
       (Bearing (init_bearing Attr (PStr ''a'') None)) = Inr True
   \<and> btype (init_bearing BearingAbstract (PStr ''a'') None)
       \<noteq> btype (init_bearing Attr (PStr ''a'') None)
   \<and> \<not> isinstance (init_bearing BearingAbstract (PStr ''a'') None) Fallback
   \<and> \<not> isinstance (init_bearing Attr (PStr ''a'') None) Fallback"
  by (simp add: init_bearing_def isinstance_def BEARING_CLASSES_default_def)

text \<open>
  C7. Placing through an \<^verbatim>\<open>Item\<close> whose name is the integer \<open>p\<close> on a list of length
  \<open>n \<le> p\<close> succeeds and leaves the list with its old elements, then \<open>p - n\<close> times
  \<^verbatim>\<open>None\<close>, then the value: the length is \<open>p + 1\<close>, the positions \<open>n\<close> to \<open>p - 1\<close> hold
  \<^verbatim>\<open>None\<close> and position \<open>p\<close> holds the value.
\<close>

theorem Item_place_pads_with_None:
  assumes "bname self = PInt p" and "int (length xs) \<le> p"
  shows "Item_place self (PList xs) v =
           Inr (PList (xs @ replicate (nat p - length xs) PNone @ [v]))
         \<and> length (xs @ replicate (nat p - length xs) PNone @ [v]) = nat p + 1
         \<and> take (length xs) (xs @ replicate (nat p - length xs) PNone @ [v]) = xs
         \<and> (\<forall>i. length xs \<le> i \<and> i < nat p \<longrightarrow>
               (xs @ replicate (nat p - length xs) PNone @ [v]) ! i = PNone)
         \<and> (xs @ replicate (nat p - length xs) PNone @ [v]) ! nat p = v"
proof (intro conjI allI impI)
  show "Item_place self (PList xs) v =
           Inr (PList (xs @ replicate (nat p - length xs) PNone @ [v]))"
    using assms by (rule Item_place_beyond)
next
  show "length (xs @ replicate (nat p - length xs) PNone @ [v]) = nat p + 1"
    using assms(2) by simp
next
  show "take (length xs) (xs @ replicate (nat p - length xs) PNone @ [v]) = xs"
    by simp
next
  fix i
  assume i: "length xs \<le> i \<and> i < nat p"
  then have "(xs @ replicate (nat p - length xs) PNone @ [v]) ! i
               = (replicate (nat p - length xs) PNone @ [v]) ! (i - length xs)"
    by (simp add: nth_append)
  also have "\<dots> = PNone"
  proof -
    have "i - length xs < nat p - length xs" using i by arith
    then show ?thesis by (simp add: nth_append)
  qed
  finally show "(xs @ replicate (nat p - length xs) PNone @ [v]) ! i = PNone" .
next
  have "length (xs @ replicate (nat p - length xs) PNone) = nat p"
    using assms(2) by simp
  then show "(xs @ replicate (nat p - length xs) PNone @ [v]) ! nat p = v"
    by (metis append.assoc nth_append_length)
qed

theorem Item_place_pads_with_None_witness:
  "Item_place (init_bearing Item (PInt 5) None)
     (PList [PStr ''changed'', PStr ''one'', PStr ''two'']) (PStr ''new value'')
   = Inr (PList [PStr ''changed'', PStr ''one'', PStr ''two'', PNone, PNone, PStr ''new value''])"
proof -
  have n: "bname (init_bearing Item (PInt 5) None) = PInt 5"
    by (simp add: init_bearing_def)
  have l: "int (length [PStr ''changed'', PStr ''one'', PStr ''two'']) \<le> 5"
    by simp
  have r: "replicate (nat 5 - length [PStr ''changed'', PStr ''one'', PStr ''two'']) PNone
             = [PNone, PNone]"
    by (simp add: numeral_eq_Suc)
  from Item_place_pads_with_None [OF n l, of "PStr ''new value''"]
  show ?thesis by (simp only: r append.simps)
qed

text \<open>
  C10. On a \<^verbatim>\<open>dict\<close>, placing through an \<^verbatim>\<open>Item\<close> under a key (a hashable value) that
  is not present adds the key with the value and does not raise. \<^verbatim>\<open>Item.place\<close> raises
  \<^verbatim>\<open>NullNameError\<close> exactly when the item assignment of the target raises \<^verbatim>\<open>KeyError\<close>,
  or raises \<^verbatim>\<open>IndexError\<close> while the target is not a list or the name is not an integer.
\<close>

theorem Item_place_dict_new_key:
  "(hashable (bname self) \<and> map_of kvs (bname self) = None \<longrightarrow>
      Item_place self (PDict kvs) v = Inr (PDict (kvs @ [(bname self, v)])))
   \<and> (Item_place self target v = Inl NullNameError \<longleftrightarrow>
        (py_setitem target (bname self) v = Inl KeyError \<or>
         (py_setitem target (bname self) v = Inl IndexError \<and>
          \<not> (is_list target \<and> is_int (bname self)))))"
proof (intro conjI impI)
  assume "hashable (bname self) \<and> map_of kvs (bname self) = None"
  then show "Item_place self (PDict kvs) v = Inr (PDict (kvs @ [(bname self, v)]))"
    by (simp add: Item_place_def dict_set_new)
next
  show "Item_place self target v = Inl NullNameError \<longleftrightarrow>
        (py_setitem target (bname self) v = Inl KeyError \<or>
         (py_setitem target (bname self) v = Inl IndexError \<and>
          \<not> (is_list target \<and> is_int (bname self))))"
    by (rule Item_place_NullName_iff)
qed

theorem Item_place_dict_new_key_witness:
  "Item_place (init_bearing Item (PStr ''c'') None)
     (PDict [(PStr ''a'', PStr ''a value''), (PStr ''b'', PStr ''changed'')]) (PStr ''new'')
   = Inr (PDict [(PStr ''a'', PStr ''a value''), (PStr ''b'', PStr ''changed''),
                 (PStr ''c'', PStr ''new'')])
   \<and> Item_place (init_bearing Item (PStr ''c'') None)
       (PStrictDict [(PStr ''a'', PStr ''a value''), (PStr ''b'', PStr ''b value'')])
       (PStr ''changed'') = Inl NullNameError
   \<and> Item_place (init_bearing Item (PInt 0) None) PThrowsIndexError (PStr ''x'')
       = Inl NullNameError"
proof -
  let ?c = "init_bearing Item (PStr ''c'') None"
  let ?d = "[(PStr ''a'', PStr ''a value''), (PStr ''b'', PStr ''changed'')]"
  let ?s = "PStrictDict [(PStr ''a'', PStr ''a value''), (PStr ''b'', PStr ''b value'')]"
  have h: "hashable (bname ?c) \<and> map_of ?d (bname ?c) = None"
    by (simp add: init_bearing_def)
  have k: "py_setitem ?s (bname ?c) (PStr ''changed'') = Inl KeyError"
    by (simp add: init_bearing_def)
  have i: "py_setitem PThrowsIndexError (bname (init_bearing Item (PInt 0) None)) (PStr ''x'')
             = Inl IndexError \<and>
           \<not> (is_list PThrowsIndexError \<and> is_int (bname (init_bearing Item (PInt 0) None)))"
    by simp
  from Item_place_dict_new_key [of ?c ?d "PStr ''new''"] h
  have "Item_place ?c (PDict ?d) (PStr ''new'') = Inr (PDict (?d @ [(bname ?c, PStr ''new'')]))"
    by blast
  then have 1: "Item_place ?c (PDict ?d) (PStr ''new'')
                  = Inr (PDict [(PStr ''a'', PStr ''a value''), (PStr ''b'', PStr ''changed''),
                                (PStr ''c'', PStr ''new'')])"
    by (simp add: init_bearing_def)
  from Item_place_dict_new_key [of ?c "[]" "PStr ''changed''" ?s] k
  have 2: "Item_place ?c ?s (PStr ''changed'') = Inl NullNameError" by blast
  from Item_place_dict_new_key [of "init_bearing Item (PInt 0) None" "[]" "PStr ''x''" PThrowsIndexError] i
  have 3: "Item_place (init_bearing Item (PInt 0) None) PThrowsIndexError (PStr ''x'')
             = Inl NullNameError" by blast
  from 1 2 3 show ?thesis by simp
qed

text \<open>
  C9. Comparing a bearing with \<^verbatim>\<open>==\<close> to an operand that is not a bearing raises
  \<^verbatim>\<open>TypeError\<close>; it never returns a truth value.
\<close>

theorem bearing_eq_other_raises:
  "bearing_eq self (Other v) = Inl TypeError \<and> (\<forall>r. bearing_eq self (Other v) \<noteq> Inr r)"
  by simp

text \<open>
  The methods of the built-in types, on the examples of the docstrings of \<^verbatim>\<open>Call\<close> and
  of \<^verbatim>\<open>test_bearings.py\<close>: \<^verbatim>\<open>Call("keys")\<close> and \<^verbatim>\<open>Fallback("keys")\<close> fetch the keys of a
  dict, \<^verbatim>\<open>Fallback("copy")\<close> a copy of it, \<^verbatim>\<open>Attr("keys")\<close> the bound method, which
  \<^verbatim>\<open>Attr.place\<close> refuses to overwrite; \<^verbatim>\<open>Call("insert", func_args=(0, Call.VALUE_ARG))\<close>
  places at the head of a list and \<^verbatim>\<open>Call("append")\<close> at its end.
\<close>

lemma built_in_methods:
  "fetch (init_bearing Call (PStr ''keys'') None)
     (PDict [(PStr ''a'', PStr ''a value''), (PStr ''b'', PStr ''b value'')])
     = Inr (PView KeysView [PStr ''a'', PStr ''b''])"
  "fetch (init_bearing Fallback (PStr ''keys'') None)
     (PDict [(PStr ''a'', PStr ''a value''), (PStr ''b'', PStr ''b value'')])
     = Inr (PView KeysView [PStr ''a'', PStr ''b''])"
  "fetch (init_bearing Fallback (PStr ''copy'') None) (PDict [(PStr ''a'', PInt 1)])
     = Inr (PDict [(PStr ''a'', PInt 1)])"
  "fetch (init_bearing Attr (PStr ''keys'') None) (PDict [(PStr ''a'', PInt 1)])
     = Inr (PBound (PDict [(PStr ''a'', PInt 1)]) ''keys'')"
  "place (init_bearing Attr (PStr ''keys'') None) (PDict [(PStr ''a'', PInt 1)]) (PInt 2)
     = Inl TypeError"
  "fetch (init_bearing Call (PStr ''does_not_exist'') None) (PDict [(PStr ''a'', PInt 1)])
     = Inl NullNameError"
  "place ((init_bearing Call (PStr ''insert'') None)\<lparr>func_args := [Arg (PInt 0), VALUE_ARG]\<rparr>)
     (PList [PStr ''zero'', PStr ''one'', PStr ''two'']) (PStr ''new'')
     = Inr (PList [PStr ''new'', PStr ''zero'', PStr ''one'', PStr ''two''])"
  "place (init_bearing Call (PStr ''append'') None) (PList [PInt 1]) (PInt 2)
     = Inr (PList [PInt 1, PInt 2])"
  by code_simp+

section \<open>Properties of courses\<close>

lemma Course_fetch_chain:
  "Course_fetch pre target None = Inr t \<Longrightarrow>
   Course_fetch (pre @ post) target dflt = Course_fetch post t dflt"
proof (induction pre arbitrary: target)
  case Nil
  then show ?case by simp
next
  case (Cons b pre)
  then show ?case by (auto split: sum.splits if_splits)
qed

lemma Course_fetch_default:
  "Course_fetch bs target (Some d)
     = (case Course_fetch bs target None of
          Inl x \<Rightarrow> if x = NullNameError then Inr d else Inl x
        | Inr r \<Rightarrow> Inr r)"
  by (induction bs arbitrary: target) (auto split: sum.splits)

text \<open>
  C8. \<^verbatim>\<open>Course.fetch\<close> applies the \<^verbatim>\<open>fetch\<close> of each bearing in turn to the value
  reached so far. When a step raises \<^verbatim>\<open>NullNameError\<close> and a default was given, the
  default is returned; otherwise the exception of the step propagates: a
  \<^verbatim>\<open>NullNameError\<close> when no default was given, and any other exception whether a
  default was given or not. So a fetch with the default \<open>d\<close> differs from the fetch
  without a default only where that one raises \<^verbatim>\<open>NullNameError\<close>, and there it returns
  \<open>d\<close>. The course parsed from \<^verbatim>\<open>"[nested]/[one key]"\<close> fetches 1 from
  \<^verbatim>\<open>{"nested": {"one key": 1}}\<close> and, with the default 99, 99 from \<^verbatim>\<open>{"nested": {}}\<close>;
  \<^verbatim>\<open>Course(Item("k")).fetch(5, default=99)\<close> raises the \<^verbatim>\<open>TypeError\<close> of \<^verbatim>\<open>5["k"]\<close>.
\<close>

theorem Course_fetch_sequential:
  "Course_fetch [] target dflt = Inr target
   \<and> (fetch b target = Inr v \<longrightarrow> Course_fetch (b # bs) target dflt = Course_fetch bs v dflt)
   \<and> (Course_fetch pre target None = Inr t \<and> fetch b t = Inl NullNameError \<longrightarrow>
        Course_fetch (pre @ b # bs) target (Some d) = Inr d)
   \<and> (Course_fetch pre target None = Inr t \<and> fetch b t = Inl e \<longrightarrow>
        Course_fetch (pre @ b # bs) target None = Inl e)
   \<and> Course_init [InValue (PStr ''[nested]/[one key]'')]
        = Inr [init_bearing Item (PStr ''nested'') None, init_bearing Item (PStr ''one key'') None]
   \<and> Course_fetch [init_bearing Item (PStr ''nested'') None, init_bearing Item (PStr ''one key'') None]
        (PDict [(PStr ''nested'', PDict [(PStr ''one key'', PInt 1)])]) None = Inr (PInt 1)
   \<and> Course_fetch [init_bearing Item (PStr ''nested'') None, init_bearing Item (PStr ''one key'') None]
        (PDict [(PStr ''nested'', PDict [])]) (Some (PInt 99)) = Inr (PInt 99)
   \<and> (Course_fetch pre target None = Inr t \<and> fetch b t = Inl e \<and> e \<noteq> NullNameError \<longrightarrow>
        Course_fetch (pre @ b # bs) target dflt = Inl e)
   \<and> Course_fetch bs target (Some d)
        = (case Course_fetch bs target None of
             Inl x \<Rightarrow> if x = NullNameError then Inr d else Inl x
           | Inr r \<Rightarrow> Inr r)
   \<and> Course_fetch [init_bearing Item (PStr ''k'') None] (PInt 5) (Some (PInt 99)) = Inl TypeError"
proof (intro conjI impI)
  show "Course_fetch [] target dflt = Inr target" by simp
next
  assume "fetch b target = Inr v"
  then show "Course_fetch (b # bs) target dflt = Course_fetch bs v dflt" by simp
next
  assume "Course_fetch pre target None = Inr t \<and> fetch b t = Inl NullNameError"
  then show "Course_fetch (pre @ b # bs) target (Some d) = Inr d"
    by (simp add: Course_fetch_chain)
next
  assume "Course_fetch pre target None = Inr t \<and> fetch b t = Inl e"
  then show "Course_fetch (pre @ b # bs) target None = Inl e"
    by (simp add: Course_fetch_chain)
next
  have s: "str_split CHR ''/'' ''[nested]/[one key]'' = [''[nested]'', ''[one key]'']"
    by simp
  have a: "bearing (PStr ''[nested]'') (Some (BEARINGS_EXTENSION @ BEARINGS)) None
             = Inr (init_bearing Item (PStr ''nested'') None)"
    by (simp add: bearing_def order_bearing_classes_def BEARINGS_def BEARINGS_EXTENSION_def
          BEARING_CLASSES_default_def attempt_name_to_bearing_def name_from_str_def
          match_Item_def dot_run_def new_bearing_def is_compatible_def isinstance_def
          init_bearing_def)
  have b: "bearing (PStr ''[one key]'') (Some (BEARINGS_EXTENSION @ BEARINGS)) None
             = Inr (init_bearing Item (PStr ''one key'') None)"
    by (simp add: bearing_def order_bearing_classes_def BEARINGS_def BEARINGS_EXTENSION_def
          BEARING_CLASSES_default_def attempt_name_to_bearing_def name_from_str_def
          match_Item_def dot_run_def new_bearing_def is_compatible_def isinstance_def
          init_bearing_def)
  show "Course_init [InValue (PStr ''[nested]/[one key]'')]
        = Inr [init_bearing Item (PStr ''nested'') None, init_bearing Item (PStr ''one key'') None]"
    by (simp only: Course_init_def cast_arg_def list.map course_input.case pyval.case s a b
          collect.simps sum.case concat.simps append.simps)
next
  show "Course_fetch [init_bearing Item (PStr ''nested'') None, init_bearing Item (PStr ''one key'') None]
        (PDict [(PStr ''nested'', PDict [(PStr ''one key'', PInt 1)])]) None = Inr (PInt 1)"
    by (simp add: fetch_def concrete_fetch_def Item_fetch_def init_bearing_def)
next
  show "Course_fetch [init_bearing Item (PStr ''nested'') None, init_bearing Item (PStr ''one key'') None]
        (PDict [(PStr ''nested'', PDict [])]) (Some (PInt 99)) = Inr (PInt 99)"
    by (simp add: fetch_def concrete_fetch_def Item_fetch_def init_bearing_def)
next
  assume "Course_fetch pre target None = Inr t \<and> fetch b t = Inl e \<and> e \<noteq> NullNameError"
  then show "Course_fetch (pre @ b # bs) target dflt = Inl e"
    by (simp add: Course_fetch_chain)
next
  show "Course_fetch bs target (Some d)
        = (case Course_fetch bs target None of
             Inl x \<Rightarrow> if x = NullNameError then Inr d else Inl x
           | Inr r \<Rightarrow> Inr r)"
    by (rule Course_fetch_default)
next
  show "Course_fetch [init_bearing Item (PStr ''k'') None] (PInt 5) (Some (PInt 99)) = Inl TypeError"
    by (simp add: fetch_def concrete_fetch_def Item_fetch_def init_bearing_def)
qed

theorem Course_fetch_sequential_witness:
  "Course_fetch [init_bearing Item (PStr ''non_existent'') None, init_bearing Item (PStr ''one key'') None]
     (PDict [(PStr ''nested'', PDict [(PStr ''one key'', PInt 1)])])
     (Some (PStr ''default value fetched!'')) = Inr (PStr ''default value fetched!'')
   \<and> Course_fetch [init_bearing Item (PStr ''nested'') None, init_bearing Item (PStr ''missing'') None]
       (PDict [(PStr ''nested'', PDict [(PStr ''one key'', PInt 1)])]) None = Inl NullNameError
   \<and> Course_fetch [init_bearing Item (PStr ''nested'') None, init_bearing Item (PStr ''one key'') None]
       (PDict [(PStr ''nested'', PDict [(PStr ''one key'', PInt 1)])]) None = Inr (PInt 1)
   \<and> Course_fetch [init_bearing Item (PStr ''nested'') None, init_bearing Item (PInt 0) None]
       (PDict [(PStr ''nested'', PInt 5)]) (Some (PInt 99)) = Inl TypeError"
proof -
  let ?d = "PDict [(PStr ''nested'', PDict [(PStr ''one key'', PInt 1)])]"
  let ?n = "init_bearing Item (PStr ''nested'') None"
  let ?k = "init_bearing Item (PStr ''one key'') None"
  let ?x = "init_bearing Item (PStr ''non_existent'') None"
  let ?m = "init_bearing Item (PStr ''missing'') None"
  have f0: "Course_fetch [] ?d None = Inr ?d \<and> fetch ?x ?d = Inl NullNameError"
    by (simp add: fetch_def concrete_fetch_def Item_fetch_def init_bearing_def)
  have f1: "Course_fetch [?n] ?d None = Inr (PDict [(PStr ''one key'', PInt 1)])
            \<and> fetch ?m (PDict [(PStr ''one key'', PInt 1)]) = Inl NullNameError"
    by (simp add: fetch_def concrete_fetch_def Item_fetch_def init_bearing_def)
  have f2: "fetch ?n ?d = Inr (PDict [(PStr ''one key'', PInt 1)])"
    by (simp add: fetch_def concrete_fetch_def Item_fetch_def init_bearing_def)
  have f3: "fetch ?k (PDict [(PStr ''one key'', PInt 1)]) = Inr (PInt 1)"
    by (simp add: fetch_def concrete_fetch_def Item_fetch_def init_bearing_def)
  from Course_fetch_sequential
         [of ?d "Some (PStr ''default value fetched!'')" ?x PNone "[?k]" "[]" ?d
            "PStr ''default value fetched!''" NullNameError] f0
  have 1: "Course_fetch ([] @ ?x # [?k]) ?d (Some (PStr ''default value fetched!''))
             = Inr (PStr ''default value fetched!'')"
    by blast
  from Course_fetch_sequential
         [of ?d None ?m PNone "[]" "[?n]" "PDict [(PStr ''one key'', PInt 1)]" PNone NullNameError] f1
  have 2: "Course_fetch ([?n] @ ?m # []) ?d None = Inl NullNameError"
    by blast
  from Course_fetch_sequential
         [of ?d None ?n "PDict [(PStr ''one key'', PInt 1)]" "[?k]" "[]" PNone PNone NullNameError] f2
  have "Course_fetch (?n # [?k]) ?d None = Course_fetch [?k] (PDict [(PStr ''one key'', PInt 1)]) None"
    by blast
  also from Course_fetch_sequential
         [of "PDict [(PStr ''one key'', PInt 1)]" None ?k "PInt 1" "[]" "[]" PNone PNone NullNameError] f3
  have "\<dots> = Course_fetch [] (PInt 1) None"
    by blast
  finally have 3: "Course_fetch [?n, ?k] ?d None = Inr (PInt 1)" by simp
  let ?z = "init_bearing Item (PInt 0) None"
  have f4: "Course_fetch [?n] (PDict [(PStr ''nested'', PInt 5)]) None = Inr (PInt 5)
            \<and> fetch ?z (PInt 5) = Inl TypeError \<and> TypeError \<noteq> NullNameError"
    by (simp add: fetch_def concrete_fetch_def Item_fetch_def init_bearing_def)
  from Course_fetch_sequential
         [of "PDict [(PStr ''nested'', PInt 5)]" "Some (PInt 99)" ?z PNone "[]" "[?n]" "PInt 5"
            PNone TypeError] f4
  have 4: "Course_fetch ([?n] @ ?z # []) (PDict [(PStr ''nested'', PInt 5)]) (Some (PInt 99))
             = Inl TypeError"
    by blast
  from 1 2 3 4 show ?thesis by simp
qed

section \<open>Properties of the cartographer\<close>

lemma cart_cache_same: "(self :: cartographer)\<lparr>cache := cache self\<rparr> = self"
  by simp

lemma bname_init_bearing: "bname (init_bearing c n f) = n"
  by (simp add: init_bearing_def)

lemma fetch_Item_dict:
  "hashable k \<Longrightarrow>
   fetch (init_bearing Item k None) (PDict okvs)
     = (case map_of okvs k of None \<Rightarrow> Inl NullNameError | Some v \<Rightarrow> Inr v)"
  by (simp add: fetch_def concrete_fetch_def Item_fetch_def init_bearing_def split: option.splits)

lemma key_step_missing:
  assumes "hashable k" and "map_of okvs k = None" and "default_methods self"
  shows "map_coordinate self (PDict okvs) (PDict dkvs) (reset_clean (key_coordinate k))
           = (Some NullNameError, PDict dkvs, reset_clean (key_coordinate k), self)"
  using assms
  by (simp add: map_coordinate_def reset_clean_def key_coordinate_def init_coordinate_def
        CleanData_def fetch_org_value_def get_cleaner_def default_methods_def
        Cartographer_clean_org_def put_org_list_def fetch_Item_dict cart_cache_same)

lemma suppressed_outcome_simps:
  "suppressed_outcome None" "suppressed_outcome (Some e) = (e = NullNameError)"
  by (simp_all add: suppressed_outcome_def)

lemma suppressed_outcome_counts:
  "list_all suppressed_outcome rs \<Longrightarrow>
   count_list rs None + count_list rs (Some NullNameError) = length rs"
  by (induction rs) (auto simp: suppressed_outcome_def)

lemma first_org_of_last:
  "first_org_of (root, crt, seen @ [c']) c
     = (case org_list (clean (view c')) of [] \<Rightarrow> None | first # others \<Rightarrow> Some first)"
  by (simp add: first_org_of_def)

lemma map_step_eq:
  "map_coordinate crt origin root c = (r, root', c', crt') \<Longrightarrow>
   map_step origin (root, crt, seen) c = (r, (root', crt', seen @ [c']))"
  by (simp add: map_step_def)

lemma loop_outcomes_length:
  "list_all suppressed_outcome (loop_outcomes step first_org cs w) \<Longrightarrow>
   length (loop_outcomes step first_org cs w) = length cs"
proof (induction cs arbitrary: w)
  case Nil
  then show ?case by simp
next
  case (Cons c cs)
  then show ?case
    by (auto simp: suppressed_outcome_simps split: prod.splits option.splits if_splits)
qed

lemma coordinates_loop_suppressed:
  "list_all suppressed_outcome (loop_outcomes step first_org cs (ls_world st)) \<Longrightarrow>
   ls_raised (coordinates_loop step first_org False cs st) = ls_raised st
   \<and> ls_errors (coordinates_loop step first_org False cs st)
       = ls_errors st
         @ replicate (count_list (loop_outcomes step first_org cs (ls_world st)) (Some NullNameError))
             NullNameError
   \<and> length (ls_mapped (coordinates_loop step first_org False cs st))
       = length (ls_mapped st) + count_list (loop_outcomes step first_org cs (ls_world st)) None
   \<and> ls_world (coordinates_loop step first_org False cs st)
       = foldl (\<lambda>x c. snd (step x c)) (ls_world st) cs"
proof (induction cs arbitrary: st)
  case Nil
  then show ?case by simp
next
  case (Cons c cs)
  obtain r w' where s: "step (ls_world st) c = (r, w')" by (cases "step (ls_world st) c")
  show ?case
  proof (cases r)
    case None
    with Cons.prems s obtain f where f: "first_org w' c = Some f"
      by (cases "first_org w' c") (auto simp: suppressed_outcome_simps)
    let ?st = "st\<lparr>ls_mapped := ls_mapped st @ [f], ls_world := w'\<rparr>"
    from Cons.prems s None f
    have "list_all suppressed_outcome (loop_outcomes step first_org cs (ls_world ?st))" by simp
    from Cons.IH [OF this] s None f show ?thesis by simp
  next
    case (Some e)
    with Cons.prems s have e: "e = NullNameError" by (auto simp: suppressed_outcome_simps)
    let ?st = "st\<lparr>ls_errors := ls_errors st @ [NullNameError], ls_world := w'\<rparr>"
    from Cons.prems s Some e
    have "list_all suppressed_outcome (loop_outcomes step first_org cs (ls_world ?st))" by simp
    from Cons.IH [OF this] s Some e show ?thesis by (simp add: replicate_app_Cons_same)
  qed
qed

lemma coordinates_loop_other:
  "\<not> list_all suppressed_outcome (loop_outcomes step first_org cs (ls_world st)) \<Longrightarrow>
   \<exists>e. e \<noteq> NullNameError \<and> last (loop_outcomes step first_org cs (ls_world st)) = Some e
       \<and> ls_raised (coordinates_loop step first_org False cs st) = Some e"
proof (induction cs arbitrary: st)
  case Nil
  then show ?case by simp
next
  case (Cons c cs)
  obtain r w' where s: "step (ls_world st) c = (r, w')" by (cases "step (ls_world st) c")
  show ?case
  proof (cases r)
    case None
    show ?thesis
    proof (cases "first_org w' c")
      case N: None
      with s None show ?thesis by simp
    next
      case (Some f)
      let ?st = "st\<lparr>ls_mapped := ls_mapped st @ [f], ls_world := w'\<rparr>"
      from Cons.prems s None Some
      have n: "\<not> list_all suppressed_outcome (loop_outcomes step first_org cs (ls_world ?st))"
        by (simp add: suppressed_outcome_simps)
      then have "loop_outcomes step first_org cs w' \<noteq> []" by auto
      with Cons.IH [OF n] s None Some show ?thesis by simp
    qed
  next
    case (Some e)
    show ?thesis
    proof (cases "e = NullNameError")
      case True
      let ?st = "st\<lparr>ls_errors := ls_errors st @ [NullNameError], ls_world := w'\<rparr>"
      from Cons.prems s Some True
      have n: "\<not> list_all suppressed_outcome (loop_outcomes step first_org cs (ls_world ?st))"
        by (simp add: suppressed_outcome_simps)
      then have "loop_outcomes step first_org cs w' \<noteq> []" by auto
      with Cons.IH [OF n] s Some True show ?thesis by simp
    next
      case False
      with s Some show ?thesis by simp
    qed
  qed
qed

text \<open>
  \<^verbatim>\<open>_map_coordinates\<close> as modelled above is the loop with \<open>map_step\<close> for its step.
\<close>

lemma map_coordinates_loop:
  "raised (map_coordinates origin b cs st)
     = ls_raised (coordinates_loop (map_step origin) first_org_of b cs
         \<lparr>ls_raised = raised st, ls_mapped = mapped st, ls_errors = error_list st,
          ls_world = (dst_root st, cart st, seen)\<rparr>)
   \<and> mapped (map_coordinates origin b cs st)
     = ls_mapped (coordinates_loop (map_step origin) first_org_of b cs
         \<lparr>ls_raised = raised st, ls_mapped = mapped st, ls_errors = error_list st,
          ls_world = (dst_root st, cart st, seen)\<rparr>)
   \<and> error_list (map_coordinates origin b cs st)
     = ls_errors (coordinates_loop (map_step origin) first_org_of b cs
         \<lparr>ls_raised = raised st, ls_mapped = mapped st, ls_errors = error_list st,
          ls_world = (dst_root st, cart st, seen)\<rparr>)
   \<and> dst_root (map_coordinates origin b cs st)
     = fst (ls_world (coordinates_loop (map_step origin) first_org_of b cs
         \<lparr>ls_raised = raised st, ls_mapped = mapped st, ls_errors = error_list st,
          ls_world = (dst_root st, cart st, seen)\<rparr>))
   \<and> cart (map_coordinates origin b cs st)
     = fst (snd (ls_world (coordinates_loop (map_step origin) first_org_of b cs
         \<lparr>ls_raised = raised st, ls_mapped = mapped st, ls_errors = error_list st,
          ls_world = (dst_root st, cart st, seen)\<rparr>)))"
proof (induction cs arbitrary: st seen)
  case Nil
  then show ?case by simp
next
  case (Cons c cs)
  obtain r root' c' cart' where
    m: "map_coordinate (cart st) origin (dst_root st) c = (r, root', c', cart')"
    by (cases "map_coordinate (cart st) origin (dst_root st) c") auto
  show ?case
  proof (cases r)
    case None
    show ?thesis
    proof (cases "org_list (clean (view c'))")
      case Nil
      with m None show ?thesis by (simp add: map_step_eq [OF m] first_org_of_last)
    next
      case (Cons f fs)
      let ?st = "st\<lparr>mapped := mapped st @ [f], dst_root := root',
                     coords := coords st @ [c'], cart := cart'\<rparr>"
      from Cons.IH [of ?st "seen @ [c']"] m None Cons show ?thesis
        by (simp add: map_step_eq [OF m] first_org_of_last)
    qed
  next
    case (Some e)
    show ?thesis
    proof (cases "e = NullNameError \<and> \<not> b")
      case True
      let ?st = "st\<lparr>error_list := error_list st @ [e], dst_root := root',
                     coords := coords st @ [c'], cart := cart'\<rparr>"
      from Cons.IH [of ?st "seen @ [c']"] m Some True show ?thesis
        by (simp add: map_step_eq [OF m])
    next
      case False
      with m Some show ?thesis by (auto simp: map_step_eq [OF m])
    qed
  qed
qed

lemma Cartographer_map_loop:
  "map_raised (Cartographer_map self origin d (Some l) None (Some b))
     = (case ls_raised (map_loop b self origin d l) of
          Some e \<Rightarrow> Some (Raised e)
        | None \<Rightarrow>
            (if ls_errors (map_loop b self origin d l) = [] then None
             else Some (SuppressedErrors (ls_errors (map_loop b self origin d l)))))
   \<and> map_dst_root (Cartographer_map self origin d (Some l) None (Some b))
     = fst (ls_world (map_loop b self origin d l))
   \<and> map_cart (Cartographer_map self origin d (Some l) None (Some b))
     = fst (snd (ls_world (map_loop b self origin d l)))
   \<and> map_mapped (Cartographer_map self origin d (Some l) None (Some b))
     = ls_mapped (map_loop b self origin d l)"
proof -
  let ?st = "\<lparr>raised = None, mapped = [], error_list = [], dst_root = d, coords = [], cart = self\<rparr>"
  have c: "Cartographer_map self origin d (Some l) None (Some b)
             = finish_map (map_coordinates origin b (map reset_clean l) ?st)"
    by (simp add: Cartographer_map_def Let_def split: option.splits)
  from map_coordinates_loop [of origin b "map reset_clean l" ?st "[]"]
  show ?thesis
    by (simp add: c finish_map_def map_loop_def loop_start_def split: option.splits)
qed

lemma Cartographer_map_suppressed:
  assumes "list_all suppressed_outcome (map_outcomes self origin d l)"
  shows "map_raised (Cartographer_map self origin d (Some l) None (Some False))
           = (if count_list (map_outcomes self origin d l) (Some NullNameError) = 0 then None
              else Some (SuppressedErrors
                           (replicate (count_list (map_outcomes self origin d l)
                                         (Some NullNameError)) NullNameError)))"
    and "length (map_mapped (Cartographer_map self origin d (Some l) None (Some False)))
           = count_list (map_outcomes self origin d l) None"
    and "map_dst_root (Cartographer_map self origin d (Some l) None (Some False))
           = fst (foldl (\<lambda>x c. snd (map_step origin x c)) (d, self, []) (map reset_clean l))"
    and "length (map_outcomes self origin d l) = length l"
proof -
  let ?w = "(d, self, []) :: map_world"
  let ?st = "loop_start ?w :: (map_world, course) loop_state"
  from assms
  have a: "list_all suppressed_outcome
             (loop_outcomes (map_step origin) first_org_of (map reset_clean l) (ls_world ?st))"
    by (simp add: map_outcomes_def loop_start_def)
  note g = coordinates_loop_suppressed [OF a]
  have o: "loop_outcomes (map_step origin) first_org_of (map reset_clean l) (ls_world ?st)
             = map_outcomes self origin d l"
    by (simp add: map_outcomes_def loop_start_def)
  have r: "ls_raised (map_loop False self origin d l) = None"
    using g by (simp add: map_loop_def loop_start_def)
  have e: "ls_errors (map_loop False self origin d l)
             = replicate (count_list (map_outcomes self origin d l) (Some NullNameError))
                 NullNameError"
    using g by (simp add: map_loop_def o) (simp add: loop_start_def)
  have m: "length (ls_mapped (map_loop False self origin d l))
             = count_list (map_outcomes self origin d l) None"
    using g by (simp add: map_loop_def o) (simp add: loop_start_def)
  have w: "ls_world (map_loop False self origin d l)
             = foldl (\<lambda>x c. snd (map_step origin x c)) ?w (map reset_clean l)"
    using g by (simp add: map_loop_def) (simp add: loop_start_def)
  note c = Cartographer_map_loop [of self origin d l False]
  show "map_raised (Cartographer_map self origin d (Some l) None (Some False))
           = (if count_list (map_outcomes self origin d l) (Some NullNameError) = 0 then None
              else Some (SuppressedErrors
                           (replicate (count_list (map_outcomes self origin d l)
                                         (Some NullNameError)) NullNameError)))"
    using c by (simp add: r e)
  show "length (map_mapped (Cartographer_map self origin d (Some l) None (Some False)))
           = count_list (map_outcomes self origin d l) None"
    using c by (simp add: m)
  show "map_dst_root (Cartographer_map self origin d (Some l) None (Some False))
           = fst (foldl (\<lambda>x c. snd (map_step origin x c)) (d, self, []) (map reset_clean l))"
    using c by (simp add: w)
  show "length (map_outcomes self origin d l) = length l"
    using loop_outcomes_length [OF a] by (simp add: o)
qed

lemma reset_clean_value: "cd_value (clean (view (reset_clean c))) = PNone"
  by (simp add: reset_clean_def CleanData_def Let_def)

lemma map_coordinate_invalid_origin:
  assumes "fst (fetch_org_value crt origin (reset_clean c)) = Inl e"
  shows "fst (map_coordinate crt origin d (reset_clean c)) = Some e
         \<and> fst (snd (map_coordinate crt origin d (reset_clean c))) = d"
  using assms
  by (cases "fetch_org_value crt origin (reset_clean c)")
     (simp add: map_coordinate_def reset_clean_value)

lemma fetch_org_value_plain:
  assumes "default_methods crt"
  shows "fst (fetch_org_value crt origin (reset_clean (plain crs da)))
           = Course_fetch crs origin None"
  using assms
  by (simp add: fetch_org_value_def plain_def reset_clean_def init_coordinate_def CleanData_def
        Let_def get_cleaner_def default_methods_def Cartographer_clean_org_def put_org_list_def
        split: sum.splits)

lemma map_coordinate_plain_mirror:
  assumes "default_methods crt" and "Course_fetch crs origin None = Inr v"
  shows "fst (map_coordinate crt origin d (reset_clean (plain crs DstNone)))
           = fst (Course_place (map (\<lambda>x. init_bearing Fallback (bname x) None) crs) d v)
         \<and> fst (snd (map_coordinate crt origin d (reset_clean (plain crs DstNone))))
           = snd (Course_place (map (\<lambda>x. init_bearing Fallback (bname x) None) crs) d v)"
  using assms
  by (simp add: map_coordinate_def plain_def reset_clean_def init_coordinate_def CleanData_def
        Let_def fetch_org_value_def get_cleaner_def default_methods_def
        Cartographer_clean_org_def put_org_list_def put_value_def clean_and_place_def
        Cartographer_clean_value_def place_dst_value_def Cartographer_clean_dst_def
        put_dst_list_def
        split: prod.splits option.splits)

lemma map_coordinate_plain_dst:
  assumes "default_methods crt" and "Course_fetch crs origin None = Inr v"
  shows "fst (map_coordinate crt origin d (reset_clean (plain crs (DstOne dc))))
           = fst (Course_place dc d v)
         \<and> fst (snd (map_coordinate crt origin d (reset_clean (plain crs (DstOne dc)))))
           = snd (Course_place dc d v)"
  using assms
  by (simp add: map_coordinate_def plain_def reset_clean_def init_coordinate_def CleanData_def
        Let_def fetch_org_value_def get_cleaner_def default_methods_def
        Cartographer_clean_org_def put_org_list_def put_value_def clean_and_place_def
        Cartographer_clean_value_def place_dst_value_def Cartographer_clean_dst_def
        put_dst_list_def
        split: prod.splits option.splits)

text \<open>
  Given as an iterator that can be run through only once, the coordinates are used up
  by the loop that renews their scratch state: none is mapped, whatever its origin.
\<close>

lemma Cartographer_map_of_iterator:
  "map_raised (Cartographer_map_of self origin d (Some (Iterator l)) None e) = None
   \<and> map_dst_root (Cartographer_map_of self origin d (Some (Iterator l)) None e) = d
   \<and> map_mapped (Cartographer_map_of self origin d (Some (Iterator l)) None e) = []
   \<and> Cartographer_map_of self origin d (Some (Collection l)) srv e
       = Cartographer_map self origin d (Some l) srv e"
  by (simp add: Cartographer_map_of_def Cartographer_map_def finish_map_def
        split: option.splits)

text \<open>
  C5. In the suppressed mode (\<^verbatim>\<open>exceptions=False\<close>) the loop of \<^verbatim>\<open>_map_coordinates\<close> goes
  through all the coordinates of the list as long as each call of \<^verbatim>\<open>_map_coordinate\<close>
  either returns or raises \<^verbatim>\<open>NullNameError\<close>: no exception leaves the loop, one
  \<^verbatim>\<open>NullNameError\<close> is recorded for each coordinate whose call raised it, every other
  coordinate is mapped, and each call has acted on what the call before it left. This
  is so whatever the call does (the first conjunct, for every \<open>step\<close>). An exception
  other than \<^verbatim>\<open>NullNameError\<close> ends the loop and is raised as it is (the second).

  \<^verbatim>\<open>Cartographer.map\<close> with a list of coordinates is this loop over \<open>map_step\<close>, and it
  raises the recorded errors, if there are any, as one \<^verbatim>\<open>SuppressedErrors\<close>. So with five
  coordinates of which three raise \<^verbatim>\<open>NullNameError\<close> and two are mapped, \<^verbatim>\<open>map\<close> raises
  one \<^verbatim>\<open>SuppressedErrors\<close> with exactly three errors, two coordinates are mapped, and the
  destination is what the five calls, one after the other, have made of it.

  Of the single call: a coordinate whose origin cannot be fetched raises the exception
  of the fetch and leaves the destination as it found it. For a coordinate with one
  origin course and no cleaning function or default, on a cartographer with the
  methods of \<^verbatim>\<open>Cartographer\<close> itself, the fetch is \<^verbatim>\<open>Course.fetch\<close> of the origin course on
  the origin; when that returns a value, the call is \<^verbatim>\<open>Course.place\<close> of the value on the
  destination, at the destination course, or without one at the origin course taken
  over with \<^verbatim>\<open>Fallback\<close> bearings.

  The run of \<open>five_coordinates\<close>, whose courses are what \<^verbatim>\<open>PORT / "a"\<close> and
  \<^verbatim>\<open>PORT / "d" / "x"\<close> parse to: the coordinates \<^verbatim>\<open>b\<close>, \<^verbatim>\<open>d/z\<close> and \<^verbatim>\<open>c\<close> fail, \<^verbatim>\<open>map\<close> raises
  \<^verbatim>\<open>SuppressedErrors\<close> with three errors, and the destination \<^verbatim>\<open>{"n": {}}\<close> becomes
  \<^verbatim>\<open>{"n": {"y": 1}, "a": "a value"}\<close>. In the run of \<open>other_coordinates\<close> the second
  coordinate raises \<^verbatim>\<open>TypeError\<close>, which \<^verbatim>\<open>map\<close> raises as it is although the first
  \<^verbatim>\<open>NullNameError\<close> was recorded.
\<close>

theorem map_suppressed_collects_failures:
  "(list_all suppressed_outcome (loop_outcomes step first_org cs w) \<longrightarrow>
      length (loop_outcomes step first_org cs w) = length cs
      \<and> ls_raised (coordinates_loop step first_org False cs (loop_start w)) = None
      \<and> ls_errors (coordinates_loop step first_org False cs (loop_start w))
          = replicate (count_list (loop_outcomes step first_org cs w) (Some NullNameError))
              NullNameError
      \<and> length (ls_mapped (coordinates_loop step first_org False cs (loop_start w)))
          = count_list (loop_outcomes step first_org cs w) None
      \<and> ls_world (coordinates_loop step first_org False cs (loop_start w))
          = foldl (\<lambda>x c. snd (step x c)) w cs)
   \<and> (\<not> list_all suppressed_outcome (loop_outcomes step first_org cs w) \<longrightarrow>
        (\<exists>e. e \<noteq> NullNameError \<and> last (loop_outcomes step first_org cs w) = Some e
              \<and> ls_raised (coordinates_loop step first_org False cs (loop_start w)) = Some e))
   \<and> map_raised (Cartographer_map self origin d (Some l) None (Some b))
       = (case ls_raised (map_loop b self origin d l) of
            Some e \<Rightarrow> Some (Raised e)
          | None \<Rightarrow>
              (if ls_errors (map_loop b self origin d l) = [] then None
               else Some (SuppressedErrors (ls_errors (map_loop b self origin d l)))))
   \<and> map_dst_root (Cartographer_map self origin d (Some l) None (Some b))
       = fst (ls_world (map_loop b self origin d l))
   \<and> map_mapped (Cartographer_map self origin d (Some l) None (Some b))
       = ls_mapped (map_loop b self origin d l)
   \<and> (list_all suppressed_outcome (map_outcomes self origin d l) \<longrightarrow>
        length (map_outcomes self origin d l) = length l
        \<and> map_raised (Cartographer_map self origin d (Some l) None (Some False))
            = (if count_list (map_outcomes self origin d l) (Some NullNameError) = 0 then None
               else Some (SuppressedErrors
                            (replicate (count_list (map_outcomes self origin d l)
                                          (Some NullNameError)) NullNameError)))
        \<and> length (map_mapped (Cartographer_map self origin d (Some l) None (Some False)))
            = count_list (map_outcomes self origin d l) None
        \<and> map_dst_root (Cartographer_map self origin d (Some l) None (Some False))
            = fst (foldl (\<lambda>x c. snd (map_step origin x c)) (d, self, []) (map reset_clean l)))
   \<and> (list_all suppressed_outcome (map_outcomes self origin d l) \<and> length l = 5
        \<and> count_list (map_outcomes self origin d l) (Some NullNameError) = 3 \<longrightarrow>
        map_raised (Cartographer_map self origin d (Some l) None (Some False))
          = Some (SuppressedErrors [NullNameError, NullNameError, NullNameError])
        \<and> count_list (map_outcomes self origin d l) None = 2
        \<and> length (map_mapped (Cartographer_map self origin d (Some l) None (Some False))) = 2)
   \<and> (fst (fetch_org_value crt origin (reset_clean c)) = Inl e0 \<longrightarrow>
        fst (map_coordinate crt origin d (reset_clean c)) = Some e0
        \<and> fst (snd (map_coordinate crt origin d (reset_clean c))) = d)
   \<and> (default_methods crt \<longrightarrow>
        fst (fetch_org_value crt origin (reset_clean (plain crs da))) = Course_fetch crs origin None)
   \<and> (default_methods crt \<and> Course_fetch crs origin None = Inr v \<longrightarrow>
        fst (map_coordinate crt origin d (reset_clean (plain crs DstNone)))
          = fst (Course_place (map (\<lambda>x. init_bearing Fallback (bname x) None) crs) d v)
        \<and> fst (snd (map_coordinate crt origin d (reset_clean (plain crs DstNone))))
          = snd (Course_place (map (\<lambda>x. init_bearing Fallback (bname x) None) crs) d v)
        \<and> fst (map_coordinate crt origin d (reset_clean (plain crs (DstOne dc))))
          = fst (Course_place dc d v)
        \<and> fst (snd (map_coordinate crt origin d (reset_clean (plain crs (DstOne dc)))))
          = snd (Course_place dc d v))
   \<and> truediv PORT (InValue (PStr ''a'')) = Inr (port [''a''])
   \<and> truediv (port [''d'']) (InValue (PStr ''x'')) = Inr (port [''d'', ''x''])
   \<and> map_outcomes Cartographer_init five_origin five_destination five_coordinates
       = [None, Some NullNameError, None, Some NullNameError, Some NullNameError]
   \<and> map_raised (Cartographer_map Cartographer_init five_origin five_destination
        (Some five_coordinates) None (Some False))
       = Some (SuppressedErrors [NullNameError, NullNameError, NullNameError])
   \<and> map_dst_root (Cartographer_map Cartographer_init five_origin five_destination
        (Some five_coordinates) None (Some False))
       = PDict [(PStr ''n'', PDict [(PStr ''y'', PInt 1)]), (PStr ''a'', PStr ''a value'')]
   \<and> map (map bname) (map_mapped (Cartographer_map Cartographer_init five_origin
        five_destination (Some five_coordinates) None (Some False)))
       = [[PStr ''a''], [PStr ''d'', PStr ''x'']]
   \<and> map_outcomes Cartographer_init (PDict [(PStr ''a'', PInt 5)]) (PDict []) other_coordinates
       = [Some NullNameError, Some TypeError]
   \<and> map_raised (Cartographer_map Cartographer_init (PDict [(PStr ''a'', PInt 5)]) (PDict [])
        (Some other_coordinates) None (Some False))
       = Some (Raised TypeError)"
proof (intro conjI impI)
  assume a: "list_all suppressed_outcome (loop_outcomes step first_org cs w)"
  then have a': "list_all suppressed_outcome
                   (loop_outcomes step first_org cs
                      (ls_world (loop_start w :: ('a, 'c) loop_state)))"
    by (simp add: loop_start_def)
  note g = coordinates_loop_suppressed [OF a']
  show "length (loop_outcomes step first_org cs w) = length cs"
    using a by (rule loop_outcomes_length)
  show "ls_raised (coordinates_loop step first_org False cs (loop_start w)) = None"
    using g by (simp add: loop_start_def)
  show "ls_errors (coordinates_loop step first_org False cs (loop_start w))
          = replicate (count_list (loop_outcomes step first_org cs w) (Some NullNameError))
              NullNameError"
    using g by (simp add: loop_start_def)
  show "length (ls_mapped (coordinates_loop step first_org False cs (loop_start w)))
          = count_list (loop_outcomes step first_org cs w) None"
    using g by (simp add: loop_start_def)
  show "ls_world (coordinates_loop step first_org False cs (loop_start w))
          = foldl (\<lambda>x c. snd (step x c)) w cs"
    using g by (simp add: loop_start_def)
next
  assume "\<not> list_all suppressed_outcome (loop_outcomes step first_org cs w)"
  then have "\<not> list_all suppressed_outcome
                 (loop_outcomes step first_org cs
                    (ls_world (loop_start w :: ('a, 'c) loop_state)))"
    by (simp add: loop_start_def)
  from coordinates_loop_other [OF this]
  show "\<exists>e. e \<noteq> NullNameError \<and> last (loop_outcomes step first_org cs w) = Some e
            \<and> ls_raised (coordinates_loop step first_org False cs (loop_start w)) = Some e"
    by (simp add: loop_start_def)
next
  show "map_raised (Cartographer_map self origin d (Some l) None (Some b))
       = (case ls_raised (map_loop b self origin d l) of
            Some e \<Rightarrow> Some (Raised e)
          | None \<Rightarrow>
              (if ls_errors (map_loop b self origin d l) = [] then None
               else Some (SuppressedErrors (ls_errors (map_loop b self origin d l)))))"
    using Cartographer_map_loop [of self origin d l b] by blast
next
  show "map_dst_root (Cartographer_map self origin d (Some l) None (Some b))
       = fst (ls_world (map_loop b self origin d l))"
    using Cartographer_map_loop [of self origin d l b] by blast
next
  show "map_mapped (Cartographer_map self origin d (Some l) None (Some b))
       = ls_mapped (map_loop b self origin d l)"
    using Cartographer_map_loop [of self origin d l b] by blast
next
  assume a: "list_all suppressed_outcome (map_outcomes self origin d l)"
  show "length (map_outcomes self origin d l) = length l"
    using a by (rule Cartographer_map_suppressed(4))
  show "map_raised (Cartographer_map self origin d (Some l) None (Some False))
            = (if count_list (map_outcomes self origin d l) (Some NullNameError) = 0 then None
               else Some (SuppressedErrors
                            (replicate (count_list (map_outcomes self origin d l)
                                          (Some NullNameError)) NullNameError)))"
    using a by (rule Cartographer_map_suppressed(1))
  show "length (map_mapped (Cartographer_map self origin d (Some l) None (Some False)))
            = count_list (map_outcomes self origin d l) None"
    using a by (rule Cartographer_map_suppressed(2))
  show "map_dst_root (Cartographer_map self origin d (Some l) None (Some False))
            = fst (foldl (\<lambda>x c. snd (map_step origin x c)) (d, self, []) (map reset_clean l))"
    using a by (rule Cartographer_map_suppressed(3))
next
  assume h: "list_all suppressed_outcome (map_outcomes self origin d l) \<and> length l = 5
        \<and> count_list (map_outcomes self origin d l) (Some NullNameError) = 3"
  then have a: "list_all suppressed_outcome (map_outcomes self origin d l)" by simp
  from h show "map_raised (Cartographer_map self origin d (Some l) None (Some False))
          = Some (SuppressedErrors [NullNameError, NullNameError, NullNameError])"
    by (simp add: Cartographer_map_suppressed(1) [OF a] numeral_3_eq_3)
  from suppressed_outcome_counts [OF a] Cartographer_map_suppressed(4) [OF a] h
  show n: "count_list (map_outcomes self origin d l) None = 2" by simp
  show "length (map_mapped (Cartographer_map self origin d (Some l) None (Some False))) = 2"
    by (simp add: Cartographer_map_suppressed(2) [OF a] n)
next
  assume "fst (fetch_org_value crt origin (reset_clean c)) = Inl e0"
  then show "fst (map_coordinate crt origin d (reset_clean c)) = Some e0"
    and "fst (snd (map_coordinate crt origin d (reset_clean c))) = d"
    using map_coordinate_invalid_origin [of crt origin c e0 d] by simp_all
next
  assume "default_methods crt"
  then show "fst (fetch_org_value crt origin (reset_clean (plain crs da)))
               = Course_fetch crs origin None"
    by (rule fetch_org_value_plain)
next
  assume h: "default_methods crt \<and> Course_fetch crs origin None = Inr v"
  then show "fst (map_coordinate crt origin d (reset_clean (plain crs DstNone)))
          = fst (Course_place (map (\<lambda>x. init_bearing Fallback (bname x) None) crs) d v)"
    and "fst (snd (map_coordinate crt origin d (reset_clean (plain crs DstNone))))
          = snd (Course_place (map (\<lambda>x. init_bearing Fallback (bname x) None) crs) d v)"
    using map_coordinate_plain_mirror [of crt crs origin v d] by simp_all
  from h show "fst (map_coordinate crt origin d (reset_clean (plain crs (DstOne dc))))
          = fst (Course_place dc d v)"
    and "fst (snd (map_coordinate crt origin d (reset_clean (plain crs (DstOne dc)))))
          = snd (Course_place dc d v)"
    using map_coordinate_plain_dst [of crt crs origin v d dc] by simp_all
next
  show "truediv PORT (InValue (PStr ''a'')) = Inr (port [''a''])"
    by code_simp
next
  show "truediv (port [''d'']) (InValue (PStr ''x'')) = Inr (port [''d'', ''x''])"
    by code_simp
next
  show "map_outcomes Cartographer_init five_origin five_destination five_coordinates
       = [None, Some NullNameError, None, Some NullNameError, Some NullNameError]"
    by code_simp
next
  show "map_raised (Cartographer_map Cartographer_init five_origin five_destination
        (Some five_coordinates) None (Some False))
       = Some (SuppressedErrors [NullNameError, NullNameError, NullNameError])"
    by code_simp
next
  show "map_dst_root (Cartographer_map Cartographer_init five_origin five_destination
        (Some five_coordinates) None (Some False))
       = PDict [(PStr ''n'', PDict [(PStr ''y'', PInt 1)]), (PStr ''a'', PStr ''a value'')]"
    by code_simp
next
  show "map (map bname) (map_mapped (Cartographer_map Cartographer_init five_origin
        five_destination (Some five_coordinates) None (Some False)))
       = [[PStr ''a''], [PStr ''d'', PStr ''x'']]"
    by code_simp
next
  show "map_outcomes Cartographer_init (PDict [(PStr ''a'', PInt 5)]) (PDict []) other_coordinates
       = [Some NullNameError, Some TypeError]"
    by code_simp
next
  show "map_raised (Cartographer_map Cartographer_init (PDict [(PStr ''a'', PInt 5)]) (PDict [])
        (Some other_coordinates) None (Some False))
       = Some (Raised TypeError)"
    by code_simp
qed

theorem map_suppressed_collects_failures_witness:
  "map_raised (Cartographer_map Cartographer_init five_origin five_destination
      (Some five_coordinates) None (Some False))
     = Some (SuppressedErrors [NullNameError, NullNameError, NullNameError])
   \<and> length (map_mapped (Cartographer_map Cartographer_init five_origin five_destination
        (Some five_coordinates) None (Some False))) = 2
   \<and> ls_errors (map_loop False Cartographer_init five_origin five_destination five_coordinates)
       = [NullNameError, NullNameError, NullNameError]
   \<and> ls_raised (map_loop False Cartographer_init (PDict [(PStr ''a'', PInt 5)]) (PDict [])
        other_coordinates) = Some TypeError
   \<and> fst (map_coordinate Cartographer_init five_origin five_destination
        (reset_clean (plain (port [''b'']) DstNone))) = Some NullNameError
   \<and> fst (snd (map_coordinate Cartographer_init five_origin five_destination
        (reset_clean (plain (port [''d'', ''x'']) (DstOne (port [''n'', ''y'']))))))
       = PDict [(PStr ''n'', PDict [(PStr ''y'', PInt 1)])]"
proof -
  let ?o = "PDict [(PStr ''a'', PInt 5)]"
  let ?w = "(five_destination, Cartographer_init, []) :: map_world"
  let ?w2 = "(PDict [], Cartographer_init, []) :: map_world"
  let ?b = "plain (port [''b'']) DstNone"
  note t1 = map_suppressed_collects_failures
              [where step = "map_step five_origin" and first_org = first_org_of
                 and cs = "map reset_clean five_coordinates" and w = ?w
                 and self = Cartographer_init and origin = five_origin and d = five_destination
                 and l = five_coordinates and b = False and crt = Cartographer_init
                 and c = ?b and ?e0.0 = NullNameError and crs = "port [''d'', ''x'']"
                 and da = DstNone and v = "PInt 1" and dc = "port [''n'', ''y'']"]
  note t2 = map_suppressed_collects_failures
              [where step = "map_step ?o" and first_org = first_org_of
                 and cs = "map reset_clean other_coordinates" and w = ?w2
                 and self = Cartographer_init and origin = five_origin and d = five_destination
                 and l = five_coordinates and b = False and crt = Cartographer_init
                 and c = ?b and ?e0.0 = NullNameError and crs = "port [''b'']"
                 and da = DstNone and v = "PInt 1" and dc = "port [''n'', ''y'']"]
  have o: "map_outcomes Cartographer_init five_origin five_destination five_coordinates
             = [None, Some NullNameError, None, Some NullNameError, Some NullNameError]"
    by code_simp
  have len: "length five_coordinates = 5"
    by (simp add: five_coordinates_def)
  have h: "list_all suppressed_outcome
             (map_outcomes Cartographer_init five_origin five_destination five_coordinates)
           \<and> length five_coordinates = 5
           \<and> count_list (map_outcomes Cartographer_init five_origin five_destination
                           five_coordinates) (Some NullNameError) = 3"
    by (simp add: o suppressed_outcome_simps len)
  from t1 have "list_all suppressed_outcome
             (map_outcomes Cartographer_init five_origin five_destination five_coordinates)
           \<and> length five_coordinates = 5
           \<and> count_list (map_outcomes Cartographer_init five_origin five_destination
                           five_coordinates) (Some NullNameError) = 3 \<longrightarrow>
         map_raised (Cartographer_map Cartographer_init five_origin five_destination
             (Some five_coordinates) None (Some False))
           = Some (SuppressedErrors [NullNameError, NullNameError, NullNameError])
         \<and> count_list (map_outcomes Cartographer_init five_origin five_destination
                         five_coordinates) None = 2
         \<and> length (map_mapped (Cartographer_map Cartographer_init five_origin five_destination
             (Some five_coordinates) None (Some False))) = 2"
    by (elim conjE)
  with h
  have 1: "map_raised (Cartographer_map Cartographer_init five_origin five_destination
             (Some five_coordinates) None (Some False))
           = Some (SuppressedErrors [NullNameError, NullNameError, NullNameError])
         \<and> length (map_mapped (Cartographer_map Cartographer_init five_origin five_destination
             (Some five_coordinates) None (Some False))) = 2"
    by blast
  have g: "list_all suppressed_outcome
             (loop_outcomes (map_step five_origin) first_org_of (map reset_clean five_coordinates) ?w)"
    using h by (simp add: map_outcomes_def)
  from t1 have "list_all suppressed_outcome
             (loop_outcomes (map_step five_origin) first_org_of (map reset_clean five_coordinates) ?w)
         \<longrightarrow> ls_errors (coordinates_loop (map_step five_origin) first_org_of False
                     (map reset_clean five_coordinates) (loop_start ?w))
          = replicate (count_list (loop_outcomes (map_step five_origin) first_org_of
                                     (map reset_clean five_coordinates) ?w) (Some NullNameError))
              NullNameError"
    by (elim conjE) blast
  with g have "ls_errors (coordinates_loop (map_step five_origin) first_org_of False
                     (map reset_clean five_coordinates) (loop_start ?w))
          = replicate (count_list (loop_outcomes (map_step five_origin) first_org_of
                                     (map reset_clean five_coordinates) ?w) (Some NullNameError))
              NullNameError"
    by blast
  with h have 2: "ls_errors (map_loop False Cartographer_init five_origin five_destination
                               five_coordinates)
                    = [NullNameError, NullNameError, NullNameError]"
    by (simp add: map_loop_def map_outcomes_def numeral_3_eq_3)
  have o2: "loop_outcomes (map_step ?o) first_org_of (map reset_clean other_coordinates) ?w2
              = [Some NullNameError, Some TypeError]"
    by code_simp
  then have n: "\<not> list_all suppressed_outcome
                    (loop_outcomes (map_step ?o) first_org_of (map reset_clean other_coordinates) ?w2)"
    by (simp add: suppressed_outcome_simps)
  from t2 have "\<not> list_all suppressed_outcome
                    (loop_outcomes (map_step ?o) first_org_of (map reset_clean other_coordinates) ?w2)
        \<longrightarrow> (\<exists>e. e \<noteq> NullNameError
               \<and> last (loop_outcomes (map_step ?o) first_org_of
                          (map reset_clean other_coordinates) ?w2) = Some e
               \<and> ls_raised (coordinates_loop (map_step ?o) first_org_of False
                      (map reset_clean other_coordinates) (loop_start ?w2)) = Some e)"
    by (elim conjE)
  with n obtain e where "last (loop_outcomes (map_step ?o) first_org_of
                          (map reset_clean other_coordinates) ?w2) = Some e"
    and "ls_raised (coordinates_loop (map_step ?o) first_org_of False
                      (map reset_clean other_coordinates) (loop_start ?w2)) = Some e"
    by blast
  with o2 have 3: "ls_raised (map_loop False Cartographer_init ?o (PDict []) other_coordinates)
                     = Some TypeError"
    by (simp add: map_loop_def)
  have m: "default_methods Cartographer_init"
    by (simp add: default_methods_def Cartographer_init_def)
  have f: "Course_fetch (port [''b'']) five_origin None = Inl NullNameError"
    by code_simp
  from t2 have "default_methods Cartographer_init \<longrightarrow>
        fst (fetch_org_value Cartographer_init five_origin (reset_clean ?b))
          = Course_fetch (port [''b'']) five_origin None"
    by (elim conjE)
  with m f have i: "fst (fetch_org_value Cartographer_init five_origin (reset_clean ?b))
                      = Inl NullNameError"
    by simp
  from t1 have "fst (fetch_org_value Cartographer_init five_origin (reset_clean ?b))
                  = Inl NullNameError \<longrightarrow>
        fst (map_coordinate Cartographer_init five_origin five_destination (reset_clean ?b))
          = Some NullNameError
        \<and> fst (snd (map_coordinate Cartographer_init five_origin five_destination
                       (reset_clean ?b))) = five_destination"
    by (elim conjE)
  with i have 4: "fst (map_coordinate Cartographer_init five_origin five_destination
                         (reset_clean ?b)) = Some NullNameError"
    by blast
  have f2: "Course_fetch (port [''d'', ''x'']) five_origin None = Inr (PInt 1)"
    by code_simp
  have p: "snd (Course_place (port [''n'', ''y'']) five_destination (PInt 1))
             = PDict [(PStr ''n'', PDict [(PStr ''y'', PInt 1)])]"
    by code_simp
  from t1 have "default_methods Cartographer_init
                \<and> Course_fetch (port [''d'', ''x'']) five_origin None = Inr (PInt 1) \<longrightarrow>
        fst (snd (map_coordinate Cartographer_init five_origin five_destination
                    (reset_clean (plain (port [''d'', ''x'']) (DstOne (port [''n'', ''y'']))))))
          = snd (Course_place (port [''n'', ''y'']) five_destination (PInt 1))"
    by (elim conjE) blast
  with m f2 p
  have 5: "fst (snd (map_coordinate Cartographer_init five_origin five_destination
                    (reset_clean (plain (port [''d'', ''x'']) (DstOne (port [''n'', ''y'']))))))
             = PDict [(PStr ''n'', PDict [(PStr ''y'', PInt 1)])]"
    by simp
  from 1 2 3 4 5 show ?thesis by simp
qed

text \<open>
  C2 (as the code has it). Called without the \<^verbatim>\<open>exceptions\<close> argument, \<^verbatim>\<open>map\<close> runs
  with \<^verbatim>\<open>exceptions=True\<close>: a \<^verbatim>\<open>NullNameError\<close> of a coordinate ends the loop at once
  and is raised as it is, the coordinates after it untouched. With
  \<^verbatim>\<open>exceptions=False\<close> the \<^verbatim>\<open>NullNameError\<close> is recorded and the loop goes on with the
  next coordinate; at the end the recorded errors are raised together as one
  \<^verbatim>\<open>SuppressedErrors\<close>.
\<close>

theorem map_error_modes:
  "Cartographer_map self origin d cs srv None = Cartographer_map self origin d cs srv (Some True)
   \<and> Cartographer_map self origin d (Some l) None (Some b)
       = finish_map (map_coordinates origin b (map reset_clean l) (start_state self d))
   \<and> (fst (map_coordinate (cart st) origin (dst_root st) c) = Some NullNameError \<longrightarrow>
        map_coordinates origin True (c # rest) st
          = st\<lparr>raised := Some NullNameError,
                dst_root := fst (snd (map_coordinate (cart st) origin (dst_root st) c)),
                coords := coords st
                          @ fst (snd (snd (map_coordinate (cart st) origin (dst_root st) c))) # rest,
                cart := snd (snd (snd (map_coordinate (cart st) origin (dst_root st) c)))\<rparr>)
   \<and> (fst (map_coordinate (cart st) origin (dst_root st) c) = Some NullNameError \<longrightarrow>
        map_coordinates origin False (c # rest) st
          = map_coordinates origin False rest
              (st\<lparr>error_list := error_list st @ [NullNameError],
                  dst_root := fst (snd (map_coordinate (cart st) origin (dst_root st) c)),
                  coords := coords st
                            @ [fst (snd (snd (map_coordinate (cart st) origin (dst_root st) c)))],
                  cart := snd (snd (snd (map_coordinate (cart st) origin (dst_root st) c)))\<rparr>))
   \<and> (raised st = Some e \<longrightarrow> map_raised (finish_map st) = Some (Raised e))
   \<and> (raised st = None \<and> error_list st \<noteq> [] \<longrightarrow>
        map_raised (finish_map st) = Some (SuppressedErrors (error_list st)))"
proof (intro conjI impI)
  show "Cartographer_map self origin d cs srv None = Cartographer_map self origin d cs srv (Some True)"
    by (simp add: Cartographer_map_def)
next
  show "Cartographer_map self origin d (Some l) None (Some b)
       = finish_map (map_coordinates origin b (map reset_clean l) (start_state self d))"
    by (simp add: Cartographer_map_def start_state_def Let_def split: option.splits)
next
  assume "fst (map_coordinate (cart st) origin (dst_root st) c) = Some NullNameError"
  then show "map_coordinates origin True (c # rest) st
          = st\<lparr>raised := Some NullNameError,
                dst_root := fst (snd (map_coordinate (cart st) origin (dst_root st) c)),
                coords := coords st
                          @ fst (snd (snd (map_coordinate (cart st) origin (dst_root st) c))) # rest,
                cart := snd (snd (snd (map_coordinate (cart st) origin (dst_root st) c)))\<rparr>"
    by (cases "map_coordinate (cart st) origin (dst_root st) c") simp
next
  assume "fst (map_coordinate (cart st) origin (dst_root st) c) = Some NullNameError"
  then show "map_coordinates origin False (c # rest) st
          = map_coordinates origin False rest
              (st\<lparr>error_list := error_list st @ [NullNameError],
                  dst_root := fst (snd (map_coordinate (cart st) origin (dst_root st) c)),
                  coords := coords st
                            @ [fst (snd (snd (map_coordinate (cart st) origin (dst_root st) c)))],
                  cart := snd (snd (snd (map_coordinate (cart st) origin (dst_root st) c)))\<rparr>)"
    by (cases "map_coordinate (cart st) origin (dst_root st) c") simp
next
  assume "raised st = Some e"
  then show "map_raised (finish_map st) = Some (Raised e)"
    by (simp add: finish_map_def)
next
  assume "raised st = None \<and> error_list st \<noteq> []"
  then show "map_raised (finish_map st) = Some (SuppressedErrors (error_list st))"
    by (simp add: finish_map_def)
qed

theorem map_error_modes_witness:
  "map_raised (Cartographer_map Cartographer_init (PDict [(PStr ''a'', PStr ''a value'')]) (PDict [])
       (Some [key_coordinate (PStr ''b'')]) None (Some False))
     = Some (SuppressedErrors [NullNameError])
   \<and> map_raised (Cartographer_map Cartographer_init (PDict [(PStr ''a'', PStr ''a value'')]) (PDict [])
       (Some [key_coordinate (PStr ''b'')]) None None)
     = Some (Raised NullNameError)"
proof -
  let ?o = "PDict [(PStr ''a'', PStr ''a value'')]"
  let ?c = "reset_clean (key_coordinate (PStr ''b''))"
  let ?st = "start_state Cartographer_init (PDict [])"
  have m: "default_methods Cartographer_init"
    by (simp add: default_methods_def Cartographer_init_def)
  have step: "map_coordinate (cart ?st) ?o (dst_root ?st) ?c
                = (Some NullNameError, PDict [], ?c, Cartographer_init)"
    using m by (simp add: start_state_def key_step_missing)
  then have h: "fst (map_coordinate (cart ?st) ?o (dst_root ?st) ?c) = Some NullNameError"
    by simp
  note t = map_error_modes [where self = Cartographer_init and origin = ?o and d = "PDict []"
             and l = "[key_coordinate (PStr ''b'')]" and st = ?st and c = ?c and rest = "[]"]
  have f: "map_coordinates ?o False [?c] ?st
             = map_coordinates ?o False []
                 (?st\<lparr>error_list := error_list ?st @ [NullNameError],
                      dst_root := fst (snd (map_coordinate (cart ?st) ?o (dst_root ?st) ?c)),
                      coords := coords ?st
                                @ [fst (snd (snd (map_coordinate (cart ?st) ?o (dst_root ?st) ?c)))],
                      cart := snd (snd (snd (map_coordinate (cart ?st) ?o (dst_root ?st) ?c)))\<rparr>)"
    using t h by blast
  have g: "map_coordinates ?o True [?c] ?st
             = ?st\<lparr>raised := Some NullNameError,
                    dst_root := fst (snd (map_coordinate (cart ?st) ?o (dst_root ?st) ?c)),
                    coords := coords ?st
                              @ fst (snd (snd (map_coordinate (cart ?st) ?o (dst_root ?st) ?c))) # [],
                    cart := snd (snd (snd (map_coordinate (cart ?st) ?o (dst_root ?st) ?c)))\<rparr>"
    using t h by blast
  have e1: "error_list (map_coordinates ?o False [?c] ?st) = [NullNameError]"
    by (simp only: f) (simp add: start_state_def)
  have r1: "raised (map_coordinates ?o False [?c] ?st) = None"
    by (simp only: f) (simp add: start_state_def)
  have r2: "raised (map_coordinates ?o True [?c] ?st) = Some NullNameError"
    by (simp only: g) simp
  have a: "Cartographer_map Cartographer_init ?o (PDict []) (Some [key_coordinate (PStr ''b'')]) None
             (Some False)
           = finish_map (map_coordinates ?o False (map reset_clean [key_coordinate (PStr ''b'')]) ?st)"
    using t [where b = False] by blast
  have b: "Cartographer_map Cartographer_init ?o (PDict []) (Some [key_coordinate (PStr ''b'')]) None None
           = finish_map (map_coordinates ?o True (map reset_clean [key_coordinate (PStr ''b'')]) ?st)"
    using t [where b = True and cs = "Some [key_coordinate (PStr ''b'')]" and srv = None] by simp
  have 1: "map_raised (finish_map (map_coordinates ?o False [?c] ?st))
             = Some (SuppressedErrors (error_list (map_coordinates ?o False [?c] ?st)))"
    using map_error_modes [where st = "map_coordinates ?o False [?c] ?st"] r1 e1 by simp
  have 2: "map_raised (finish_map (map_coordinates ?o True [?c] ?st)) = Some (Raised NullNameError)"
    using map_error_modes [where st = "map_coordinates ?o True [?c] ?st" and e = NullNameError] r2
    by simp
  from a b 1 2 e1 show ?thesis by simp
qed

text \<open>
  C2 as the specification words it fails: without the \<^verbatim>\<open>exceptions\<close> argument, the
  \<^verbatim>\<open>NullNameError\<close> of the first coordinate is raised as it is, not as an aggregate,
  and the second coordinate, whose key the origin holds, is never applied.
\<close>

theorem map_default_mode_counterexample:
  "map_raised (Cartographer_map Cartographer_init (PDict [(PStr ''a'', PStr ''a value'')]) (PDict [])
       (Some [key_coordinate (PStr ''b''), key_coordinate (PStr ''a'')]) None None)
     = Some (Raised NullNameError)
   \<and> map_dst_root (Cartographer_map Cartographer_init (PDict [(PStr ''a'', PStr ''a value'')])
       (PDict []) (Some [key_coordinate (PStr ''b''), key_coordinate (PStr ''a'')]) None None)
     = PDict []
   \<and> map_raised (Cartographer_map Cartographer_init (PDict [(PStr ''a'', PStr ''a value'')]) (PDict [])
       (Some [key_coordinate (PStr ''b''), key_coordinate (PStr ''a'')]) None (Some False))
     = Some (SuppressedErrors [NullNameError])
   \<and> map_dst_root (Cartographer_map Cartographer_init (PDict [(PStr ''a'', PStr ''a value'')])
       (PDict []) (Some [key_coordinate (PStr ''b''), key_coordinate (PStr ''a'')]) None (Some False))
     = PDict [(PStr ''a'', PStr ''a value'')]"
  by code_simp

text \<open>
  C1 as the code has it: \<^verbatim>\<open>map\<close> never empties the cache. A run without coordinates
  leaves the cache as it found it, and what a cleaning function of one run stores in
  the cache, a cleaning function of the next run on the same cartographer reads: the
  second run below places \<^verbatim>\<open>"Ann"\<close>, the value of the first run, although its own
  origin holds \<^verbatim>\<open>"Bob"\<close>.
\<close>

theorem map_keeps_cache:
  "cache (map_cart (Cartographer_map self origin d None None e)) = cache self
   \<and> cache (map_cart (Cartographer_map Cartographer_init (PDict [(PStr ''name'', PStr ''Ann'')])
       (PDict [])
       (Some [init_coordinate (OrgOne [init_bearing Item (PStr ''name'') None]) DstNone None None
                (Some cache_writer) NO_DEFAULT]) None None))
       = [(PStr ''seen'', PStr ''Ann'')]
   \<and> map_dst_root
       (Cartographer_map
          (map_cart (Cartographer_map Cartographer_init (PDict [(PStr ''name'', PStr ''Ann'')])
             (PDict [])
             (Some [init_coordinate (OrgOne [init_bearing Item (PStr ''name'') None]) DstNone None
                      None (Some cache_writer) NO_DEFAULT]) None None))
          (PDict [(PStr ''name'', PStr ''Bob'')]) (PDict [])
          (Some [init_coordinate (OrgOne [init_bearing Item (PStr ''name'') None]) DstNone None None
                   (Some cache_reader) NO_DEFAULT]) None None)
       = PDict [(PStr ''name'', PStr ''Ann'')]"
proof (intro conjI)
  show "cache (map_cart (Cartographer_map self origin d None None e)) = cache self"
    by (simp add: Cartographer_map_def finish_map_def split: option.splits)
next
  show "cache (map_cart (Cartographer_map Cartographer_init (PDict [(PStr ''name'', PStr ''Ann'')])
       (PDict [])
       (Some [init_coordinate (OrgOne [init_bearing Item (PStr ''name'') None]) DstNone None None
                (Some cache_writer) NO_DEFAULT]) None None))
       = [(PStr ''seen'', PStr ''Ann'')]"
    by code_simp
next
  show "map_dst_root
       (Cartographer_map
          (map_cart (Cartographer_map Cartographer_init (PDict [(PStr ''name'', PStr ''Ann'')])
             (PDict [])
             (Some [init_coordinate (OrgOne [init_bearing Item (PStr ''name'') None]) DstNone None
                      None (Some cache_writer) NO_DEFAULT]) None None))
          (PDict [(PStr ''name'', PStr ''Bob'')]) (PDict [])
          (Some [init_coordinate (OrgOne [init_bearing Item (PStr ''name'') None]) DstNone None None
                   (Some cache_reader) NO_DEFAULT]) None None)
       = PDict [(PStr ''name'', PStr ''Ann'')]"
    by code_simp
qed

lemma sort_key_constant: "(\<And>x. f x = c) \<Longrightarrow> sort_key f xs = xs"
proof (induction xs)
  case Nil
  then show ?case by simp
next
  case (Cons x xs)
  then show ?case by (cases xs) simp_all
qed

lemma map_survey_chart_skips:
  "skipped (mapped st) course \<Longrightarrow>
   map_survey_chart origin exceptions ((course, v) # rest) st
     = map_survey_chart origin exceptions rest st"
  by simp

text \<open>
  C3 as the code has it: the sort of \<^verbatim>\<open>_chart_survey\<close> takes the length of each
  \<^verbatim>\<open>(course, value)\<close> pair, which is always 2, so it leaves the chart in the order of
  the surveyor, parents before children. On \<^verbatim>\<open>{"a": {"x": 1}}\<close> the course \<^verbatim>\<open>a\<close> is
  mapped (the whole inner dict is placed) and the deeper course \<^verbatim>\<open>a/x\<close> is skipped.
  On \<^verbatim>\<open>{"b": 5, "a": {"x": 1, "y": 2}}\<close> with the explicit coordinate \<^verbatim>\<open>a/x\<close>, the
  surveyor's courses are mapped in the order \<^verbatim>\<open>b\<close> (length 1), then \<^verbatim>\<open>a/y\<close> (length 2).
\<close>

theorem chart_survey_keeps_chart_order:
  "py_sort_reverse len_pair course_chart = course_chart
   \<and> map (\<lambda>p. length (fst p))
       (case chart Surveyor_default (PDict [(PStr ''a'', PDict [(PStr ''x'', PInt 1)])]) True of
          Chart c \<Rightarrow> py_sort_reverse len_pair c | _ \<Rightarrow> []) = [1, 2]
   \<and> map (map bname) (map_mapped (Cartographer_map Cartographer_init
       (PDict [(PStr ''a'', PDict [(PStr ''x'', PInt 1)])]) (PDict []) None
       (Some Surveyor_default) None)) = [[PStr ''a'']]
   \<and> map_dst_root (Cartographer_map Cartographer_init
       (PDict [(PStr ''a'', PDict [(PStr ''x'', PInt 1)])]) (PDict []) None
       (Some Surveyor_default) None) = PDict [(PStr ''a'', PDict [(PStr ''x'', PInt 1)])]
   \<and> map (map bname) (map_mapped (Cartographer_map Cartographer_init
       (PDict [(PStr ''b'', PInt 5), (PStr ''a'', PDict [(PStr ''x'', PInt 1), (PStr ''y'', PInt 2)])])
       (PDict [(PStr ''a'', PDict [])])
       (Some [init_coordinate
                (OrgOne [init_bearing Item (PStr ''a'') None, init_bearing Item (PStr ''x'') None])
                DstNone None None None NO_DEFAULT])
       (Some Surveyor_default) None))
       = [[PStr ''a'', PStr ''x''], [PStr ''b''], [PStr ''a'', PStr ''y'']]"
proof (intro conjI)
  have "sort_key len_pair (rev course_chart) = rev course_chart"
    by (rule sort_key_constant [of len_pair 2]) (simp add: len_pair_def)
  then show "py_sort_reverse len_pair course_chart = course_chart"
    by (simp add: py_sort_reverse_def)
qed code_simp+


end
